theory Spec2Isabelle
  imports Main
begin

section \<open>Python strings\<close>

text \<open>
  A Python \<open>str\<close> is modelled as a \<open>string\<close> with one \<open>char\<close> per code point, so the
  model covers the texts whose code points lie below 256. On that range \<open>str.isspace\<close>
  holds for the code points 9 to 13, 28 to 32, 133 and 160, and \<open>str.lower\<close> moves
  \<open>A\<close> to \<open>Z\<close> and the upper-case letters 192 to 222 (215 apart) up by 32.
\<close>

definition isspace :: "char \<Rightarrow> bool" where
  "isspace c =
     (let n = (of_char c :: nat)
      in (9 \<le> n \<and> n \<le> 13) \<or> (28 \<le> n \<and> n \<le> 32) \<or> n = 133 \<or> n = 160)"

definition strip :: "string \<Rightarrow> string" where
  \<comment> \<open>\<open>s.strip()\<close>\<close>
  "strip s = rev (dropWhile isspace (rev (dropWhile isspace s)))"

fun split_newline :: "string \<Rightarrow> string list" where
  \<comment> \<open>\<open>s.split('\\n')\<close>: never empty, \<open>''.split('\\n') == ['']\<close>\<close>
  "split_newline [] = [ [] ]"
| "split_newline (c # cs) =
     (if c = CHR 0x0A then [] # split_newline cs
      else (case split_newline cs of
              [] \<Rightarrow> [ [c] ]
            | l # ls \<Rightarrow> (c # l) # ls))"

fun join_newline :: "string list \<Rightarrow> string" where
  \<comment> \<open>\<open>'\\n'.join(xs)\<close>\<close>
  "join_newline [] = []"
| "join_newline [x] = x"
| "join_newline (x # y # ys) = x @ [CHR 0x0A] @ join_newline (y # ys)"

definition lower_char :: "char \<Rightarrow> char" where
  "lower_char c =
     (let n = (of_char c :: nat)
      in if (65 \<le> n \<and> n \<le> 90) \<or> (192 \<le> n \<and> n \<le> 222 \<and> n \<noteq> 215)
         then char_of (n + 32) else c)"

definition lower :: "string \<Rightarrow> string" where
  \<comment> \<open>\<open>s.lower()\<close>\<close>
  "lower s = map lower_char s"

fun str_contains :: "string \<Rightarrow> string \<Rightarrow> bool" where
  \<comment> \<open>\<open>sub in s\<close>\<close>
  "str_contains sub [] = (sub = [])"
| "str_contains sub (c # cs) =
     (take (length sub) (c # cs) = sub \<or> str_contains sub cs)"

definition digit_char :: "nat \<Rightarrow> char" where
  "digit_char d = char_of (48 + d)"

fun str_nat :: "nat \<Rightarrow> string" where
  \<comment> \<open>\<open>str(n)\<close> of a non-negative integer\<close>
  "str_nat n = (if n < 10 then [digit_char n] else str_nat (n div 10) @ [digit_char (n mod 10)])"

declare str_nat.simps [simp del]

definition py_slice_to :: "'a list \<Rightarrow> int \<Rightarrow> 'a list" where
  \<comment> \<open>\<open>xs[:k]\<close>: a negative \<open>k\<close> counts from the end\<close>
  "py_slice_to xs k =
     (if 0 \<le> k then take (nat k) xs else take (nat (int (length xs) + k)) xs)"

section \<open>Floating-point statistics and their \<open>.2f\<close> rendering\<close>

text \<open>
  A float is its sign, its integer mantissa and its binary exponent, or an infinity or a
  NaN: \<open>Finite neg m e\<close> stands for \<open>(-1)^neg * m * 2^e\<close>. The format \<open>.2f\<close> prints the
  decimal with two fractional digits that is nearest to the exact value, ties going to
  the even neighbour, and keeps the sign of a negative zero.
\<close>

datatype pyfloat = Finite bool nat int | Infinity bool | NaN

definition round_half_even :: "nat \<Rightarrow> int \<Rightarrow> nat" where
  \<comment> \<open>the integer nearest to \<open>n * 2^e\<close>\<close>
  "round_half_even n e =
     (if 0 \<le> e then n * 2 ^ nat e
      else (let d = 2 ^ nat (- e); q = n div d; r = n mod d
            in if 2 * r < d then q
               else if d < 2 * r then q + 1
               else if even q then q else q + 1))"

fun format_2f :: "pyfloat \<Rightarrow> string" where
  \<comment> \<open>\<open>f'{x:.2f}'\<close>\<close>
  "format_2f NaN = ''nan''"
| "format_2f (Infinity neg) = (if neg then ''-inf'' else ''inf'')"
| "format_2f (Finite neg m e) =
     (let h = round_half_even (m * 100) e
      in (if neg then ''-'' else '''') @ str_nat (h div 100) @ ''.''
         @ [digit_char (h mod 100 div 10), digit_char (h mod 10)])"

section \<open>The outside world and the run state\<close>

text \<open>
  The text generator, the random source and the document converter are outside the
  program. Each request to the generator and each draw of \<open>random.randint\<close> is numbered
  in the order the run makes it: \<open>ollama_generate env i\<close> is the reply to request \<open>i\<close>
  (or \<open>None\<close> when anything in the \<open>try\<close> block raises), whatever the prompt was, and
  \<open>randint env i a b\<close> is the value draw \<open>i\<close> returns for the bounds \<open>a\<close> and \<open>b\<close>.
  \<open>libreoffice env\<close> is \<open>None\<close> when the conversion succeeds and the exception text
  otherwise.
\<close>

record env =
  ollama_generate :: "nat \<Rightarrow> string option"
  randint :: "nat \<Rightarrow> int \<Rightarrow> int \<Rightarrow> int"
  libreoffice :: "string option"

datatype error = KeyError string | ValueError | TypeError | OtherException string

datatype drawing =
    ScatterPlot | HexbinPlot | BoxPlot | BinnedMeanBar
  | GroupedMeanBar | GroupedCountBar | StackedCrosstabBar | EmptyFigure

record chart =
  drawing :: drawing
  actual_plot_type :: string
  plot_title :: string

datatype body = TitleOnly | EmptyBody | BulletList "string list" | Picture chart

record slide =
  title :: string
  body :: body

record state =
  prs :: "slide list"
  slide_titles :: "string list"
  llm_calls :: nat
  rand_calls :: nat

definition and_then :: "error + 'a \<Rightarrow> ('a \<Rightarrow> error + 'b) \<Rightarrow> error + 'b" where
  "and_then m f = (case m of Inl e \<Rightarrow> Inl e | Inr x \<Rightarrow> f x)"

section \<open>\<open>generate_with_llama\<close> and \<open>split_into_bullets\<close>\<close>

definition llama_error_text :: string where
  "llama_error_text =
     ''Analysis failed due to error.'' @ [CHR 0x0A] @
     ''CSV data could not be processed.'' @ [CHR 0x0A] @
     ''Please verify file integrity.'' @ [CHR 0x0A] @
     ''Contact support for assistance.'' @ [CHR 0x0A] @
     ''This is an error state.''"

definition generate_with_llama :: "env \<Rightarrow> state \<Rightarrow> string \<times> state" where
  "generate_with_llama e s =
     ((case ollama_generate e (llm_calls s) of
         Some response \<Rightarrow> strip response
       | None \<Rightarrow> llama_error_text),
      s\<lparr>llm_calls := Suc (llm_calls s)\<rparr>)"

definition py_randint :: "env \<Rightarrow> int \<Rightarrow> int \<Rightarrow> state \<Rightarrow> error + (int \<times> state)" where
  \<comment> \<open>\<open>random.randint(a, b)\<close> raises ValueError on an empty range\<close>
  "py_randint e a b s =
     (if b < a then Inl ValueError
      else Inr (randint e (rand_calls s) a b, s\<lparr>rand_calls := Suc (rand_calls s)\<rparr>))"

definition failure_bullets :: "string list" where
  "failure_bullets =
     [''Insufficient data in CSV.'',
      ''Analysis cannot be completed.'',
      ''Please check CSV content.'',
      ''No insights can be derived.'',
      ''This is an error message.'']"

definition stripped_lines :: "string \<Rightarrow> string list" where
  \<comment> \<open>\<open>[line.strip() for line in text.split('\\n') if line.strip()]\<close>\<close>
  "stripped_lines text = [strip line. line \<leftarrow> split_newline text, strip line \<noteq> []]"

definition split_into_bullets ::
  "env \<Rightarrow> string \<Rightarrow> int \<Rightarrow> int \<Rightarrow> state \<Rightarrow> error + (string list \<times> state)" where
  "split_into_bullets e text min_points max_points s =
     (let lines = stripped_lines text
      in if lines = [] \<or> int (length lines) < min_points then Inr (failure_bullets, s)
         else and_then (py_randint e min_points (min max_points (int (length lines))) s)
                (\<lambda>(num_points, s'). Inr (py_slice_to lines num_points, s')))"

section \<open>The dataset\<close>

text \<open>
  A data frame is seen through the calls the program makes on it: \<open>len(df)\<close>,
  \<open>df.columns\<close>, and for a column \<open>is_numeric_dtype\<close>, \<open>dtype\<close>, \<open>mean()\<close>, \<open>min()\<close>,
  \<open>max()\<close>, \<open>nunique()\<close> and \<open>mode()[0]\<close>; \<open>corr df a b\<close> is the correlation of the
  columns \<open>a\<close> and \<open>b\<close>. Any of these statistics can raise instead of giving a value:
  \<open>mean c\<close>, \<open>min_value c\<close>, \<open>max_value c\<close> and \<open>corr df a b\<close> are the float that the
  format \<open>.2f\<close> is applied to, or the exception that the call or its formatting raises
  (a boolean column has a minimum that \<open>.2f\<close> refuses), and \<open>mode0 c\<close> is the text of
  \<open>mode()[0]\<close> or the exception it raises. The lines that draw and save the chart of a
  pair of columns (lines 140 to 176) stand in no \<open>try\<close> either: \<open>plot_chart df a b ch\<close>
  is the exception they raise when the chart \<open>ch\<close> of the focus column \<open>a\<close> and the
  other column \<open>b\<close> is drawn on this data, or \<open>None\<close> when the picture is saved.
\<close>

record column =
  is_numeric_dtype :: bool
  dtype :: string
  mean :: "error + pyfloat"
  min_value :: "error + pyfloat"
  max_value :: "error + pyfloat"
  nunique :: nat
  mode0 :: "error + string"

record dataframe =
  nrows :: nat
  columns :: "(string \<times> column) list"
  corr :: "string \<Rightarrow> string \<Rightarrow> error + pyfloat"
  plot_chart :: "string \<Rightarrow> string \<Rightarrow> chart \<Rightarrow> error option"

definition df_empty :: "dataframe \<Rightarrow> bool" where
  \<comment> \<open>\<open>df.empty\<close>: some axis has length 0\<close>
  "df_empty df = (nrows df = 0 \<or> columns df = [])"

definition getitem :: "dataframe \<Rightarrow> string \<Rightarrow> error + column" where
  \<comment> \<open>\<open>df[c]\<close>\<close>
  "getitem df c = (case map_of (columns df) c of None \<Rightarrow> Inl (KeyError c) | Some x \<Rightarrow> Inr x)"

section \<open>\<open>add_slide\<close>\<close>

definition add_slide ::
  "slide list \<Rightarrow> string \<Rightarrow> string list option \<Rightarrow> chart option \<Rightarrow> slide list" where
  "add_slide p t content chart_path =
     p @ [\<lparr>title = t,
           body = (case chart_path of
                     Some ch \<Rightarrow> Picture ch
                   | None \<Rightarrow>
                       (case content of
                          Some points \<Rightarrow> if points \<noteq> [] then BulletList points else EmptyBody
                        | None \<Rightarrow> EmptyBody))\<rparr>]"

definition generated_slide :: "env \<Rightarrow> string \<Rightarrow> state \<Rightarrow> error + state" where
  \<comment> \<open>the recurring three lines: \<open>generate_with_llama\<close>, \<open>split_into_bullets\<close>, \<open>add_slide\<close>\<close>
  "generated_slide e t s =
     (let (text, s1) = generate_with_llama e s
      in and_then (split_into_bullets e text 5 6 s1)
           (\<lambda>(points, s2). Inr (s2\<lparr>prs := add_slide (prs s2) t (Some points) None\<rparr>)))"

section \<open>\<open>generate_eda_report\<close>\<close>

text \<open>
  The prompts only travel to the text generator, whose reply is arbitrary; they are not
  built here, and neither are \<open>stats_content\<close> and the labels that only feed a prompt
  (the two statistics computed for them at lines 184 and 186 are, since they can raise).
\<close>

definition cover_slide :: "env \<Rightarrow> state \<Rightarrow> state" where
  \<comment> \<open>lines 88 to 105\<close>
  "cover_slide e s =
     (let (text, s1) = generate_with_llama e s;
          cover_title = hd (split_newline text)
      in s1\<lparr>prs := prs s1 @ [\<lparr>title = cover_title, body = TitleOnly\<rparr>],
            slide_titles := [cover_title]\<rparr>)"

definition plan_titles :: "string \<Rightarrow> string list \<Rightarrow> bool \<Rightarrow> string \<Rightarrow> state \<Rightarrow> state" where
  \<comment> \<open>lines 108 to 117\<close>
  "plan_titles col other_cols extra_slides_needed user_prompt s =
     (let t1 = slide_titles s @ [''Introduction to Analysis''];
          t2 = t1 @ [''Comparison Plot: '' @ col @ '' vs '' @ other_col. other_col \<leftarrow> other_cols];
          t3 = t2 @ [''Comparison Insights: '' @ col @ '' vs '' @ other_col. other_col \<leftarrow> other_cols];
          t4 = t3 @ [''Detailed Insights: '' @ col @ '' vs '' @ other_col. other_col \<leftarrow> other_cols];
          t5 = (if extra_slides_needed then t4 @ [''Index of Slides''] else t4);
          t6 = (if lower user_prompt \<noteq> ''default analysis of one column vs others''
                   \<and> str_contains ''summary'' (lower user_prompt)
                then t5 @ [''Summary of Findings''] else t5)
      in s\<lparr>slide_titles := t6 @ [''Conclusion of Analysis'']\<rparr>)"

definition numbered_titles :: "string list \<Rightarrow> string list" where
  \<comment> \<open>\<open>[f'{i + 1}. {title}' for i, title in enumerate(slide_titles[2:-1])]\<close>\<close>
  "numbered_titles ts =
     [str_nat (i + 1) @ ''. '' @ t. (i, t) \<leftarrow> enumerate 0 (butlast (drop 2 ts))]"

function overview_slides :: "nat \<Rightarrow> string list \<Rightarrow> slide list \<Rightarrow> slide list" where
  \<comment> \<open>lines 119 to 123: \<open>for i in range(0, len(overview_content), 6)\<close>\<close>
  "overview_slides i overview_content p =
     (if i < length overview_content
      then overview_slides (i + 6) overview_content
             (add_slide p
                (if i = 0 then ''Overview of Upcoming Slides''
                 else ''Overview of Upcoming Slides Continued'')
                (Some (take 6 (drop i overview_content))) None)
      else p)"
  by pat_completeness auto
termination
  by (relation "measure (\<lambda>(i, overview_content, p). length overview_content - i)") auto

declare overview_slides.simps [simp del]

definition draw_chart :: "bool \<Rightarrow> bool \<Rightarrow> string \<Rightarrow> string \<Rightarrow> string \<Rightarrow> chart" where
  \<comment> \<open>lines 138 to 170\<close>
  "draw_chart is_numeric_col is_numeric_other plot_type col other_col =
     (if is_numeric_col \<and> is_numeric_other then
        (if plot_type = ''Scatter'' then
           \<lparr>drawing = ScatterPlot, actual_plot_type = plot_type,
            plot_title = col @ '' vs '' @ other_col\<rparr>
         else if plot_type = ''Hexbin'' then
           \<lparr>drawing = HexbinPlot, actual_plot_type = plot_type,
            plot_title = col @ '' vs '' @ other_col\<rparr>
         else if plot_type = ''Box'' then
           \<lparr>drawing = BoxPlot, actual_plot_type = plot_type,
            plot_title = other_col @ '' by '' @ col\<rparr>
         else if plot_type = ''Bar'' then
           \<lparr>drawing = BinnedMeanBar, actual_plot_type = plot_type,
            plot_title = ''Mean '' @ other_col @ '' by '' @ col\<rparr>
         else
           \<lparr>drawing = EmptyFigure, actual_plot_type = plot_type, plot_title = []\<rparr>)
      else if is_numeric_other then
        \<lparr>drawing = GroupedMeanBar, actual_plot_type = ''Bar'',
         plot_title = ''Mean '' @ other_col @ '' by '' @ col\<rparr>
      else if is_numeric_col then
        \<lparr>drawing = GroupedCountBar, actual_plot_type = ''Bar'',
         plot_title = ''Count of '' @ col @ '' by '' @ other_col\<rparr>
      else
        \<lparr>drawing = StackedCrosstabBar, actual_plot_type = ''Stacked Bar'',
         plot_title = col @ '' vs '' @ other_col\<rparr>)"

definition content_points ::
  "dataframe \<Rightarrow> string \<Rightarrow> column \<Rightarrow> string \<Rightarrow> column \<Rightarrow> error + string list" where
  \<comment> \<open>lines 182 to 195, in the order the statistics are asked for; \<open>fc\<close> is \<open>df[col]\<close> and
      \<open>oc\<close> is \<open>df[other_col]\<close>\<close>
  "content_points df col fc other_col oc =
     (let is_numeric_col = is_numeric_dtype fc;
          is_numeric_other = is_numeric_dtype oc
      in and_then (if is_numeric_col \<and> is_numeric_other
                   then and_then (corr df col other_col) (\<lambda>c. Inr (Some c))
                   else Inr None) (\<lambda>corr_value.
         and_then (if is_numeric_col
                   then and_then (mean fc) (\<lambda>m. Inr (format_2f m))
                   else Inr (str_nat (nunique fc))) (\<lambda>col_stat_value.
         and_then (if is_numeric_other
                   then and_then (mean oc) (\<lambda>m. Inr (format_2f m))
                   else Inr (str_nat (nunique oc))) (\<lambda>other_col_stat_value.
         and_then (if is_numeric_other
                   then and_then (mean oc) (\<lambda>m.
                          Inr (other_col @ '' mean: '' @ format_2f m @ ''. Average from CSV data.''))
                   else Inr (other_col @ '' unique: '' @ str_nat (nunique oc)
                               @ ''. Distinct values counted.'')) (\<lambda>mean_or_unique.
         and_then (if is_numeric_other
                   then and_then (min_value oc) (\<lambda>m.
                          Inr (other_col @ '' min: '' @ format_2f m @ ''. Minimum value in CSV.''))
                   else and_then (mode0 oc) (\<lambda>t.
                          Inr (other_col @ '' top: '' @ t @ ''. Most frequent in CSV.''))) (\<lambda>min_or_top.
         and_then (if is_numeric_other
                   then and_then (max_value oc) (\<lambda>m.
                          Inr (other_col @ '' max: '' @ format_2f m @ ''. Maximum value in CSV.''))
                   else Inr (other_col @ '' diversity: ''
                               @ (if 5 < nunique oc then ''High'' else ''Low'')
                               @ ''. Variation in data.'')) (\<lambda>max_or_diversity.
         and_then (if is_numeric_col
                   then and_then (mean fc) (\<lambda>m.
                          Inr (col @ '' stat: '' @ format_2f m @ ''. Numeric average from CSV.''))
                   else and_then (mode0 fc) (\<lambda>t.
                          Inr (col @ '' top: '' @ t @ ''. Top category in CSV.''))) (\<lambda>stat_or_top.
         Inr [''Rows analyzed: '' @ str_nat (nrows df) @ ''. Total entries in CSV.'',
              (case corr_value of
                 Some c \<Rightarrow> ''Correlation: '' @ format_2f c @ ''. Shows '' @ col @ '' vs ''
                             @ other_col @ '' link.''
               | None \<Rightarrow> col @ '' type: '' @ dtype fc @ ''. Non-numeric data detected.''),
              mean_or_unique, min_or_top, max_or_diversity, stat_or_top]))))))))"

definition comparison_group ::
  "env \<Rightarrow> dataframe \<Rightarrow> string \<Rightarrow> string \<Rightarrow> string \<Rightarrow> state \<Rightarrow> error + state" where
  \<comment> \<open>one turn of the loop of lines 132 to 204; an exception of the chart lines or of the
      statistics lines ends the run\<close>
  "comparison_group e df col plot_type other_col s =
     and_then (getitem df col) (\<lambda>fc.
     and_then (getitem df other_col) (\<lambda>oc.
       let ch = draw_chart (is_numeric_dtype fc) (is_numeric_dtype oc) plot_type col other_col
       in case plot_chart df col other_col ch of
            Some err \<Rightarrow> Inl err
          | None \<Rightarrow>
              (let s1 = s\<lparr>prs := add_slide (prs s)
                                   (''Comparison Plot: '' @ col @ '' vs '' @ other_col)
                                   None (Some ch)\<rparr>
               in and_then (content_points df col fc other_col oc) (\<lambda>points.
                    let s2 = s1\<lparr>prs := add_slide (prs s1)
                                         (''Comparison Insights: '' @ col @ '' vs '' @ other_col)
                                         (Some points) None\<rparr>
                    in generated_slide e (''Detailed Insights: '' @ col @ '' vs '' @ other_col)
                         s2))))"

fun comparison_slides ::
  "env \<Rightarrow> dataframe \<Rightarrow> string \<Rightarrow> string \<Rightarrow> string list \<Rightarrow> state \<Rightarrow> error + state" where
  "comparison_slides e df col plot_type [] s = Inr s"
| "comparison_slides e df col plot_type (other_col # rest) s =
     and_then (comparison_group e df col plot_type other_col s)
       (comparison_slides e df col plot_type rest)"

definition index_slide :: "env \<Rightarrow> bool \<Rightarrow> state \<Rightarrow> error + state" where
  \<comment> \<open>lines 206 to 210\<close>
  "index_slide e extra_slides_needed s =
     (if extra_slides_needed then
        and_then
          (split_into_bullets e (join_newline (numbered_titles (slide_titles s))) 5 6 s)
          (\<lambda>(index_points, s1).
             Inr (s1\<lparr>prs := add_slide (prs s1) ''Index of Slides'' (Some index_points) None\<rparr>))
      else Inr s)"

definition summary_slide :: "env \<Rightarrow> string \<Rightarrow> state \<Rightarrow> error + state" where
  \<comment> \<open>lines 212 to 218\<close>
  "summary_slide e user_prompt s =
     (if user_prompt \<noteq> []
         \<and> lower user_prompt \<noteq> ''default analysis of one column vs others''
         \<and> str_contains ''summary'' (lower user_prompt)
      then and_then (generated_slide e ''Summary of Findings'' s)
             (\<lambda>s1. Inr (s1\<lparr>slide_titles := slide_titles s1 @ [''Summary of Findings'']\<rparr>))
      else Inr s)"

fun additional_slides :: "env \<Rightarrow> nat list \<Rightarrow> state \<Rightarrow> error + state" where
  \<comment> \<open>the body of the loop of lines 223 to 228, over the values of \<open>i\<close>\<close>
  "additional_slides e [] s = Inr s"
| "additional_slides e (i # rest) s =
     and_then (generated_slide e (''Additional Analysis '' @ str_nat (i + 1)) s)
       (\<lambda>s1. additional_slides e rest
                (s1\<lparr>slide_titles := slide_titles s1 @ [''Additional Analysis '' @ str_nat (i + 1)]\<rparr>))"

definition ensure_minimum_slides :: "env \<Rightarrow> int \<Rightarrow> state \<Rightarrow> error + state" where
  \<comment> \<open>lines 220 to 228\<close>
  "ensure_minimum_slides e min_slides s =
     (let current_slides = int (length (slide_titles s)) + 1
      in if current_slides < min_slides
         then additional_slides e [0..<nat (min_slides - current_slides)] s
         else Inr s)"

definition thank_you_slide :: "state \<Rightarrow> state" where
  \<comment> \<open>lines 236 to 250\<close>
  "thank_you_slide s = s\<lparr>prs := prs s @ [\<lparr>title = ''Thank You'', body = TitleOnly\<rparr>]\<rparr>"

definition initial_state :: state where
  "initial_state = \<lparr>prs = [], slide_titles = [], llm_calls = 0, rand_calls = 0\<rparr>"

definition build_presentation ::
  "env \<Rightarrow> dataframe \<Rightarrow> string \<Rightarrow> string \<Rightarrow> int \<Rightarrow> string \<Rightarrow> error + state" where
  \<comment> \<open>lines 82 to 250: the state when \<open>prs.save\<close> is reached\<close>
  "build_presentation e df col plot_type min_slides user_prompt =
     (let num_cols = length (columns df);
          other_cols = [c. c \<leftarrow> map fst (columns df), c \<noteq> col];
          s1 = cover_slide e initial_state;
          extra_slides_needed = (2 * int num_cols < min_slides);
          s2 = plan_titles col other_cols extra_slides_needed user_prompt s1;
          s3 = s2\<lparr>prs := overview_slides 0 (numbered_titles (slide_titles s2)) (prs s2)\<rparr>
      in and_then (generated_slide e ''Introduction to Analysis'' s3) (\<lambda>s4.
         and_then (comparison_slides e df col plot_type other_cols s4) (\<lambda>s5.
         and_then (index_slide e extra_slides_needed s5) (\<lambda>s6.
         and_then (summary_slide e user_prompt s6) (\<lambda>s7.
         and_then (ensure_minimum_slides e min_slides s7) (\<lambda>s8.
         and_then (generated_slide e ''Conclusion of Analysis'' s8) (\<lambda>s9.
         Inr (thank_you_slide s9))))))))"

datatype payload = Message string | OdpBytes "slide list"

definition generate_eda_report ::
  "env \<Rightarrow> string + dataframe \<Rightarrow> string \<Rightarrow> string \<Rightarrow> int \<Rightarrow> string \<Rightarrow> error + (bool \<times> payload)" where
  \<comment> \<open>\<open>csv_file\<close> is what \<open>pd.read_csv\<close> makes of it: the exception text or the data frame\<close>
  "generate_eda_report e csv_file col plot_type min_slides user_prompt =
     (case csv_file of
        Inl msg \<Rightarrow> Inr (False, Message (''Error reading CSV: '' @ msg))
      | Inr df \<Rightarrow>
          if df_empty df then Inr (False, Message ''CSV file is empty.'')
          else and_then (build_presentation e df col plot_type min_slides user_prompt)
                 (\<lambda>s. case libreoffice e of
                         None \<Rightarrow> Inr (True, OdpBytes (prs s))
                       | Some msg \<Rightarrow> Inr (False, Message (''Error converting to ODP: '' @ msg))))"

section \<open>Notions used to state the properties\<close>

definition is_digit :: "char \<Rightarrow> bool" where
  "is_digit c = (48 \<le> (of_char c :: nat) \<and> (of_char c :: nat) \<le> 57)"

definition two_decimals :: "string \<Rightarrow> bool" where
  \<comment> \<open>an optional minus sign, one or more digits, a point, and exactly two digits\<close>
  "two_decimals s =
     (let u = (if take 1 s = ''-'' then drop 1 s else s); n = length u
      in 4 \<le> n \<and> list_all is_digit (take (n - 3) u) \<and> u ! (n - 3) = CHR ''.''
         \<and> list_all is_digit (drop (n - 2) u))"

definition bullet_points :: "slide \<Rightarrow> string list" where
  \<comment> \<open>the paragraphs written on a slide\<close>
  "bullet_points sl = (case body sl of BulletList points \<Rightarrow> points | _ \<Rightarrow> [])"

definition produced_deck :: "error + (bool \<times> payload) \<Rightarrow> slide list" where
  \<comment> \<open>the slides of the document a successful run returns\<close>
  "produced_deck r = (case r of Inr (True, OdpBytes deck) \<Rightarrow> deck | _ \<Rightarrow> [])"

definition figures_available ::
  "dataframe \<Rightarrow> string \<Rightarrow> column \<Rightarrow> string \<Rightarrow> column \<Rightarrow> bool" where
  \<comment> \<open>none of the statistics that lines 182 to 195 ask for raises\<close>
  "figures_available df col fc other_col oc =
     ((is_numeric_dtype fc \<and> is_numeric_dtype oc \<longrightarrow> \<not> isl (corr df col other_col))
      \<and> (if is_numeric_dtype fc then \<not> isl (mean fc) else \<not> isl (mode0 fc))
      \<and> (if is_numeric_dtype oc
          then \<not> isl (mean oc) \<and> \<not> isl (min_value oc) \<and> \<not> isl (max_value oc)
          else \<not> isl (mode0 oc)))"

definition turn_completes :: "dataframe \<Rightarrow> string \<Rightarrow> string \<Rightarrow> string \<Rightarrow> bool" where
  \<comment> \<open>in the turn of the comparison loop for \<open>other_col\<close>, both columns exist, the chart
      lines raise nothing and the statistics lines raise nothing\<close>
  "turn_completes df col plot_type other_col =
     (case getitem df col of
        Inl err \<Rightarrow> False
      | Inr fc \<Rightarrow>
          (case getitem df other_col of
             Inl err \<Rightarrow> False
           | Inr oc \<Rightarrow>
               plot_chart df col other_col
                 (draw_chart (is_numeric_dtype fc) (is_numeric_dtype oc) plot_type col other_col)
                 = None
               \<and> figures_available df col fc other_col oc))"

section \<open>Sample inputs\<close>

text \<open>
  Concrete inputs on which the theorems below are exercised: a generator that always
  replies with the same five short lines, a random source that always draws the upper
  bound, a text of seven usable lines, a frame of three rows with a numeric column \<open>A\<close>
  and a text column \<open>B\<close>, and the same frame with a constant numeric column \<open>C\<close>. Every
  chart of these frames can be drawn.
\<close>

definition demo_reply :: string where
  "demo_reply = join_newline [''Sales'', ''b'', ''c'', ''d'', ''e'']"

definition demo_env :: env where
  "demo_env =
     \<lparr>ollama_generate = (\<lambda>i. Some demo_reply), randint = (\<lambda>i a b. b), libreoffice = None\<rparr>"

definition demo_text :: string where
  "demo_text =
     join_newline [''one'', ''  two  '', [], ''three'', ''four'', ''five'', ''six'', ''seven'']"

definition numeric_column :: column where
  \<comment> \<open>the values 1, 2, 3\<close>
  "numeric_column =
     \<lparr>is_numeric_dtype = True, dtype = ''int64'', mean = Inr (Finite False 2 0),
      min_value = Inr (Finite False 1 0), max_value = Inr (Finite False 3 0), nunique = 3,
      mode0 = Inr ''1''\<rparr>"

definition text_column :: column where
  \<comment> \<open>the values x, x, y: no mean, and a minimum and a maximum that \<open>.2f\<close> refuses\<close>
  "text_column =
     \<lparr>is_numeric_dtype = False, dtype = ''object'', mean = Inl TypeError,
      min_value = Inl ValueError, max_value = Inl ValueError, nunique = 2, mode0 = Inr ''x''\<rparr>"

definition constant_column :: column where
  \<comment> \<open>the values 5, 5, 5\<close>
  "constant_column =
     \<lparr>is_numeric_dtype = True, dtype = ''int64'', mean = Inr (Finite False 5 0),
      min_value = Inr (Finite False 5 0), max_value = Inr (Finite False 5 0), nunique = 1,
      mode0 = Inr ''5''\<rparr>"

definition demo_df :: dataframe where
  \<comment> \<open>no correlation is computed with the text column \<open>B\<close>\<close>
  "demo_df =
     \<lparr>nrows = 3, columns = [(''A'', numeric_column), (''B'', text_column)],
      corr = (\<lambda>a b. if a = ''A'' \<and> b = ''A'' then Inr (Finite False 1 0) else Inl ValueError),
      plot_chart = (\<lambda>a b ch. None)\<rparr>"

definition demo_df3 :: dataframe where
  \<comment> \<open>the correlation of \<open>A\<close> with the constant column \<open>C\<close> is not a number, and
      no correlation is computed with the text column \<open>B\<close>\<close>
  "demo_df3 =
     \<lparr>nrows = 3,
      columns = [(''A'', numeric_column), (''B'', text_column), (''C'', constant_column)],
      corr = (\<lambda>a b. if a = ''B'' \<or> b = ''B'' then Inl ValueError
                    else if a = ''A'' \<and> b = ''A'' then Inr (Finite False 1 0) else Inr NaN),
      plot_chart = (\<lambda>a b ch. None)\<rparr>"

definition default_prompt :: string where
  "default_prompt = ''Default analysis of one column vs others''"

definition summary_prompt :: string where
  "summary_prompt = ''Please add a Summary slide''"

section \<open>Auxiliary facts\<close>

lemma other_cols_filter:
  "[c. c \<leftarrow> xs, c \<noteq> col] = filter (\<lambda>c. c \<noteq> col) xs"
  by (induction xs) auto

lemma demo_text_lines:
  "stripped_lines demo_text = [''one'', ''two'', ''three'', ''four'', ''five'', ''six'', ''seven'']"
  by (simp add: demo_text_def stripped_lines_def strip_def isspace_def)


lemma demo_df_turns:
  "list_all (turn_completes demo_df ''A'' plot_type)
     (filter (\<lambda>c. c \<noteq> ''A'') (map fst (columns demo_df)))"
  by (simp add: demo_df_def turn_completes_def getitem_def figures_available_def
        numeric_column_def text_column_def)

lemma demo_df3_turns:
  "list_all (turn_completes demo_df3 ''A'' plot_type)
     (filter (\<lambda>c. c \<noteq> ''A'') (map fst (columns demo_df3)))"
  by (simp add: demo_df3_def turn_completes_def getitem_def figures_available_def
        numeric_column_def text_column_def constant_column_def)
section \<open>How each step runs\<close>

lemma and_then_Inr [simp]: "and_then (Inr x) f = f x"
  by (simp add: and_then_def)

lemma and_then_Inl [simp]: "and_then (Inl e) f = Inl e"
  by (simp add: and_then_def)

lemma split_newline_not_Nil: "split_newline s \<noteq> []"
  by (induction s) (auto split: list.splits)

lemma split_into_bullets_5_6:
  "split_into_bullets e text 5 6 s =
     (if length (stripped_lines text) < 5 then Inr (failure_bullets, s)
      else Inr (py_slice_to (stripped_lines text)
                  (randint e (rand_calls s) 5 (min 6 (int (length (stripped_lines text))))),
                s\<lparr>rand_calls := Suc (rand_calls s)\<rparr>))"
  by (auto simp: split_into_bullets_def py_randint_def Let_def)

lemma generated_slide_run:
  obtains b s' where "generated_slide e t s = Inr s'"
    and "prs s' = prs s @ [\<lparr>title = t, body = b\<rparr>]"
    and "slide_titles s' = slide_titles s"
  by (cases "length (stripped_lines (fst (generate_with_llama e s))) < 5")
     (auto simp: generated_slide_def generate_with_llama_def split_into_bullets_5_6
        add_slide_def split: prod.splits)

lemma getitem_present:
  assumes "c \<in> fst ` set (columns df)"
  obtains x where "getitem df c = Inr x"
proof -
  from assms have "map_of (columns df) c \<noteq> None"
    by (simp add: map_of_eq_None_iff)
  then show ?thesis
    using that by (auto simp: getitem_def)
qed

lemma getitem_absent:
  "c \<notin> fst ` set (columns df) \<Longrightarrow> getitem df c = Inl (KeyError c)"
  by (simp add: getitem_def map_of_eq_None_iff [THEN iffD2])

lemma not_isl_value:
  assumes "\<not> isl x"
  obtains y where "x = Inr y" and "projr x = y"
  using assms by (cases x) auto

lemma content_points_figures:
  assumes "figures_available df col fc other_col oc"
  shows "content_points df col fc other_col oc =
           Inr [''Rows analyzed: '' @ str_nat (nrows df) @ ''. Total entries in CSV.'',
                (if is_numeric_dtype fc \<and> is_numeric_dtype oc
                 then ''Correlation: '' @ format_2f (projr (corr df col other_col)) @ ''. Shows ''
                        @ col @ '' vs '' @ other_col @ '' link.''
                 else col @ '' type: '' @ dtype fc @ ''. Non-numeric data detected.''),
                (if is_numeric_dtype oc
                 then other_col @ '' mean: '' @ format_2f (projr (mean oc))
                        @ ''. Average from CSV data.''
                 else other_col @ '' unique: '' @ str_nat (nunique oc)
                        @ ''. Distinct values counted.''),
                (if is_numeric_dtype oc
                 then other_col @ '' min: '' @ format_2f (projr (min_value oc))
                        @ ''. Minimum value in CSV.''
                 else other_col @ '' top: '' @ projr (mode0 oc) @ ''. Most frequent in CSV.''),
                (if is_numeric_dtype oc
                 then other_col @ '' max: '' @ format_2f (projr (max_value oc))
                        @ ''. Maximum value in CSV.''
                 else other_col @ '' diversity: '' @ (if 5 < nunique oc then ''High'' else ''Low'')
                        @ ''. Variation in data.''),
                (if is_numeric_dtype fc
                 then col @ '' stat: '' @ format_2f (projr (mean fc))
                        @ ''. Numeric average from CSV.''
                 else col @ '' top: '' @ projr (mode0 fc) @ ''. Top category in CSV.'')]"
proof (cases "is_numeric_dtype fc")
  case nf: True
  with assms obtain mf where mf: "mean fc = Inr mf" "projr (mean fc) = mf"
    by (auto simp: figures_available_def elim: not_isl_value)
  show ?thesis
  proof (cases "is_numeric_dtype oc")
    case no: True
    with nf assms obtain c mo mn mx where "corr df col other_col = Inr c"
      "projr (corr df col other_col) = c" "mean oc = Inr mo" "projr (mean oc) = mo"
      "min_value oc = Inr mn" "projr (min_value oc) = mn"
      "max_value oc = Inr mx" "projr (max_value oc) = mx"
      unfolding figures_available_def by (metis not_isl_value)
    with nf no mf show ?thesis
      by (simp add: content_points_def)
  next
    case no: False
    with assms obtain t where "mode0 oc = Inr t" "projr (mode0 oc) = t"
      by (auto simp: figures_available_def elim: not_isl_value)
    with nf no mf show ?thesis
      by (simp add: content_points_def)
  qed
next
  case nf: False
  with assms obtain tf where tf: "mode0 fc = Inr tf" "projr (mode0 fc) = tf"
    by (auto simp: figures_available_def elim: not_isl_value)
  show ?thesis
  proof (cases "is_numeric_dtype oc")
    case no: True
    with assms obtain mo mn mx where "mean oc = Inr mo" "projr (mean oc) = mo"
      "min_value oc = Inr mn" "projr (min_value oc) = mn"
      "max_value oc = Inr mx" "projr (max_value oc) = mx"
      unfolding figures_available_def by (metis not_isl_value)
    with nf no tf show ?thesis
      by (simp add: content_points_def)
  next
    case no: False
    with assms obtain t where "mode0 oc = Inr t" "projr (mode0 oc) = t"
      by (auto simp: figures_available_def elim: not_isl_value)
    with nf no tf show ?thesis
      by (simp add: content_points_def)
  qed
qed

lemma content_points_length:
  "content_points df col fc other_col oc = Inr points \<Longrightarrow> length points = 6"
  by (auto simp: content_points_def Let_def and_then_def split: if_splits sum.splits)

lemma comparison_group_run:
  assumes "getitem df col = Inr fc" and "getitem df other_col = Inr oc"
    and "plot_chart df col other_col
           (draw_chart (is_numeric_dtype fc) (is_numeric_dtype oc) plot_type col other_col) = None"
    and "figures_available df col fc other_col oc"
  obtains d points s' where "comparison_group e df col plot_type other_col s = Inr s'"
    and "content_points df col fc other_col oc = Inr points"
    and "prs s' = prs s @
           [\<lparr>title = ''Comparison Plot: '' @ col @ '' vs '' @ other_col,
             body = Picture (draw_chart (is_numeric_dtype fc) (is_numeric_dtype oc)
                               plot_type col other_col)\<rparr>,
            \<lparr>title = ''Comparison Insights: '' @ col @ '' vs '' @ other_col,
             body = BulletList points\<rparr>,
            \<lparr>title = ''Detailed Insights: '' @ col @ '' vs '' @ other_col, body = d\<rparr>]"
    and "slide_titles s' = slide_titles s"
proof -
  from content_points_figures [OF assms(4)]
  obtain points where cp: "content_points df col fc other_col oc = Inr points"
    by blast
  have ne: "points \<noteq> []"
    using content_points_length [OF cp] by auto
  define s2 where "s2 = s\<lparr>prs := prs s @
           [\<lparr>title = ''Comparison Plot: '' @ col @ '' vs '' @ other_col,
             body = Picture (draw_chart (is_numeric_dtype fc) (is_numeric_dtype oc)
                               plot_type col other_col)\<rparr>,
            \<lparr>title = ''Comparison Insights: '' @ col @ '' vs '' @ other_col,
             body = BulletList points\<rparr>]\<rparr>"
  obtain d s' where g: "generated_slide e (''Detailed Insights: '' @ col @ '' vs '' @ other_col) s2 = Inr s'"
    and p: "prs s' = prs s2 @ [\<lparr>title = ''Detailed Insights: '' @ col @ '' vs '' @ other_col, body = d\<rparr>]"
    and t: "slide_titles s' = slide_titles s2"
    by (rule generated_slide_run)
  have "comparison_group e df col plot_type other_col s = Inr s'"
    using assms(1-3) cp ne g by (simp add: comparison_group_def Let_def add_slide_def s2_def)
  moreover have "slide_titles s' = slide_titles s"
    using t by (simp add: s2_def)
  ultimately show ?thesis
    using that cp p by (simp add: s2_def)
qed

lemma turn_completes_columns:
  assumes "turn_completes df col plot_type other_col"
  obtains fc oc where "getitem df col = Inr fc" and "getitem df other_col = Inr oc"
    and "plot_chart df col other_col
           (draw_chart (is_numeric_dtype fc) (is_numeric_dtype oc) plot_type col other_col) = None"
    and "figures_available df col fc other_col oc"
  using assms by (auto simp: turn_completes_def split: sum.splits)

lemma comparison_slides_run:
  assumes "list_all (turn_completes df col plot_type) others"
  shows "\<exists>new s'. comparison_slides e df col plot_type others s = Inr s'
           \<and> prs s' = prs s @ new
           \<and> map title new =
               concat (map (\<lambda>other_col.
                         [''Comparison Plot: '' @ col @ '' vs '' @ other_col,
                          ''Comparison Insights: '' @ col @ '' vs '' @ other_col,
                          ''Detailed Insights: '' @ col @ '' vs '' @ other_col]) others)
           \<and> slide_titles s' = slide_titles s"
  using assms
proof (induction others arbitrary: s)
  case Nil
  then show ?case by simp
next
  case (Cons other_col rest)
  then have "turn_completes df col plot_type other_col"
    by simp
  then obtain fc oc where fc: "getitem df col = Inr fc" and oc: "getitem df other_col = Inr oc"
    and pl: "plot_chart df col other_col
           (draw_chart (is_numeric_dtype fc) (is_numeric_dtype oc) plot_type col other_col) = None"
    and fa: "figures_available df col fc other_col oc"
    by (rule turn_completes_columns)
  obtain d points s1 where g: "comparison_group e df col plot_type other_col s = Inr s1"
    and p: "prs s1 = prs s @
           [\<lparr>title = ''Comparison Plot: '' @ col @ '' vs '' @ other_col,
             body = Picture (draw_chart (is_numeric_dtype fc) (is_numeric_dtype oc)
                               plot_type col other_col)\<rparr>,
            \<lparr>title = ''Comparison Insights: '' @ col @ '' vs '' @ other_col,
             body = BulletList points\<rparr>,
            \<lparr>title = ''Detailed Insights: '' @ col @ '' vs '' @ other_col, body = d\<rparr>]"
    and t: "slide_titles s1 = slide_titles s"
    using comparison_group_run [OF fc oc pl fa] by blast
  from Cons have "list_all (turn_completes df col plot_type) rest"
    by simp
  from Cons.IH [OF this, of s1]
  obtain new s' where r: "comparison_slides e df col plot_type rest s1 = Inr s'"
    and p': "prs s' = prs s1 @ new"
    and m: "map title new =
               concat (map (\<lambda>other_col.
                         [''Comparison Plot: '' @ col @ '' vs '' @ other_col,
                          ''Comparison Insights: '' @ col @ '' vs '' @ other_col,
                          ''Detailed Insights: '' @ col @ '' vs '' @ other_col]) rest)"
    and t': "slide_titles s' = slide_titles s1"
    by blast
  show ?case
    using g r p p' m t t' by simp
qed

lemma comparison_slides_raises:
  assumes "getitem df col = Inr fc" and "getitem df other_col = Inr oc"
    and "plot_chart df col other_col
           (draw_chart (is_numeric_dtype fc) (is_numeric_dtype oc) plot_type col other_col)
           = Some err"
  shows "comparison_slides e df col plot_type (other_col # rest) s = Inl err"
  using assms by (simp add: comparison_group_def)

lemma additional_slides_run:
  "\<exists>new s'. additional_slides e idxs s = Inr s'
     \<and> prs s' = prs s @ new
     \<and> map title new = map (\<lambda>i. ''Additional Analysis '' @ str_nat (i + 1)) idxs
     \<and> slide_titles s' =
         slide_titles s @ map (\<lambda>i. ''Additional Analysis '' @ str_nat (i + 1)) idxs"
proof (induction idxs arbitrary: s)
  case Nil
  then show ?case by simp
next
  case (Cons i rest)
  obtain b s1 where g: "generated_slide e (''Additional Analysis '' @ str_nat (i + 1)) s = Inr s1"
    and p: "prs s1 = prs s @ [\<lparr>title = ''Additional Analysis '' @ str_nat (i + 1), body = b\<rparr>]"
    and t: "slide_titles s1 = slide_titles s"
    by (rule generated_slide_run)
  define s2 where
    "s2 = s1\<lparr>slide_titles := slide_titles s1 @ [''Additional Analysis '' @ str_nat (i + 1)]\<rparr>"
  from Cons [of s2] obtain new s' where r: "additional_slides e rest s2 = Inr s'"
    and p': "prs s' = prs s2 @ new"
    and m: "map title new = map (\<lambda>i. ''Additional Analysis '' @ str_nat (i + 1)) rest"
    and t': "slide_titles s' =
         slide_titles s2 @ map (\<lambda>i. ''Additional Analysis '' @ str_nat (i + 1)) rest"
    by blast
  show ?case
    using g r p p' m t t' by (simp add: s2_def)
qed

lemma split_into_bullets_default_run:
  obtains points s' where "split_into_bullets e text 5 6 s = Inr (points, s')"
    and "prs s' = prs s" and "slide_titles s' = slide_titles s"
  by (cases "length (stripped_lines text) < 5") (auto simp: split_into_bullets_5_6)

lemma index_slide_run:
  obtains points s1 s' where "index_slide e extra_slides_needed s = Inr s'"
    and "split_into_bullets e (join_newline (numbered_titles (slide_titles s))) 5 6 s
           = Inr (points, s1)"
    and "prs s' = prs s @
           (if extra_slides_needed then add_slide [] ''Index of Slides'' (Some points) None
            else [])"
    and "slide_titles s' = slide_titles s"
proof -
  obtain points s1 where
    sp: "split_into_bullets e (join_newline (numbered_titles (slide_titles s))) 5 6 s
           = Inr (points, s1)"
    and p: "prs s1 = prs s" and t: "slide_titles s1 = slide_titles s"
    by (rule split_into_bullets_default_run)
  show ?thesis
  proof (cases extra_slides_needed)
    case True
    show ?thesis
      by (rule that [of "s1\<lparr>prs := add_slide (prs s1) ''Index of Slides'' (Some points) None\<rparr>"
                        points s1])
         (simp_all add: index_slide_def sp p t True add_slide_def)
  next
    case False
    show ?thesis
      by (rule that [of s points s1]) (simp_all add: index_slide_def sp False)
  qed
qed

lemma summary_slide_run:
  obtains new s' where "summary_slide e user_prompt s = Inr s'"
    and "prs s' = prs s @ new"
    and "map title new =
           (if lower user_prompt \<noteq> ''default analysis of one column vs others''
               \<and> str_contains ''summary'' (lower user_prompt)
            then [''Summary of Findings''] else [])"
    and "slide_titles s' = slide_titles s @
           (if lower user_prompt \<noteq> ''default analysis of one column vs others''
               \<and> str_contains ''summary'' (lower user_prompt)
            then [''Summary of Findings''] else [])"
proof (cases "lower user_prompt \<noteq> ''default analysis of one column vs others''
               \<and> str_contains ''summary'' (lower user_prompt)")
  case True
  then have ne: "user_prompt \<noteq> []"
    by (auto simp: lower_def)
  obtain b s1 where g: "generated_slide e ''Summary of Findings'' s = Inr s1"
    and p: "prs s1 = prs s @ [\<lparr>title = ''Summary of Findings'', body = b\<rparr>]"
    and t: "slide_titles s1 = slide_titles s"
    by (rule generated_slide_run)
  show ?thesis
    by (rule that [of "s1\<lparr>slide_titles := slide_titles s1 @ [''Summary of Findings'']\<rparr>"
                      "[\<lparr>title = ''Summary of Findings'', body = b\<rparr>]"])
       (use True ne in \<open>simp_all add: summary_slide_def g p t\<close>)
next
  case False
  show ?thesis
    by (rule that [of s "[]"]) (use False in \<open>auto simp: summary_slide_def\<close>)
qed

lemma ensure_minimum_slides_run:
  obtains new s' where "ensure_minimum_slides e min_slides s = Inr s'"
    and "prs s' = prs s @ new"
    and "map title new =
           map (\<lambda>i. ''Additional Analysis '' @ str_nat (i + 1))
             [0..<nat (min_slides - (int (length (slide_titles s)) + 1))]"
    and "slide_titles s' = slide_titles s @
           map (\<lambda>i. ''Additional Analysis '' @ str_nat (i + 1))
             [0..<nat (min_slides - (int (length (slide_titles s)) + 1))]"
proof (cases "int (length (slide_titles s)) + 1 < min_slides")
  case True
  from additional_slides_run
    [of e "[0..<nat (min_slides - (int (length (slide_titles s)) + 1))]" s]
  obtain new s' where
    "additional_slides e [0..<nat (min_slides - (int (length (slide_titles s)) + 1))] s = Inr s'"
    "prs s' = prs s @ new"
    "map title new = map (\<lambda>i. ''Additional Analysis '' @ str_nat (i + 1))
             [0..<nat (min_slides - (int (length (slide_titles s)) + 1))]"
    "slide_titles s' = slide_titles s @
           map (\<lambda>i. ''Additional Analysis '' @ str_nat (i + 1))
             [0..<nat (min_slides - (int (length (slide_titles s)) + 1))]"
    by blast
  then show ?thesis
    using True that by (simp add: ensure_minimum_slides_def Let_def)
next
  case False
  show ?thesis
    by (rule that [of s "[]"]) (use False in \<open>simp_all add: ensure_minimum_slides_def Let_def\<close>)
qed

lemma overview_slides_append:
  "overview_slides i overview_content p = p @ overview_slides i overview_content []"
proof (induction "length overview_content - i" arbitrary: i p rule: less_induct)
  case less
  show ?case
  proof (cases "i < length overview_content")
    case True
    then have d: "length overview_content - (i + 6) < length overview_content - i"
      by simp
    define t where "t = (if i = 0 then ''Overview of Upcoming Slides''
                         else ''Overview of Upcoming Slides Continued'')"
    define c where "c = Some (take 6 (drop i overview_content))"
    have step: "overview_slides i overview_content q =
                  overview_slides (i + 6) overview_content (add_slide q t c None)" for q
      using True by (subst overview_slides.simps) (simp add: t_def c_def)
    have app: "add_slide q t c None = q @ add_slide [] t c None" for q
      by (simp add: add_slide_def)
    have "overview_slides i overview_content p =
            add_slide p t c None @ overview_slides (i + 6) overview_content []"
      using less [OF d, of "add_slide p t c None"] by (simp add: step)
    also have "\<dots> = p @ add_slide [] t c None @ overview_slides (i + 6) overview_content []"
      by (subst app) simp
    also have "\<dots> = p @ overview_slides i overview_content []"
      using less [OF d, of "add_slide [] t c None"] by (simp add: step [of "[]"])
    finally show ?thesis .
  next
    case False
    then show ?thesis
      by (simp add: overview_slides.simps)
  qed
qed

lemma overview_slides_unfold:
  "overview_slides i overview_content [] =
     (if i < length overview_content
      then \<lparr>title = (if i = 0 then ''Overview of Upcoming Slides''
                     else ''Overview of Upcoming Slides Continued''),
            body = BulletList (take 6 (drop i overview_content))\<rparr>
           # overview_slides (i + 6) overview_content []
      else [])"
  by (subst overview_slides.simps, subst overview_slides_append)
     (simp add: add_slide_def)

lemma pages_step:
  fixes i n :: nat
  assumes "i < n"
  shows "Suc ((n - (i + 6) + 5) div 6) = (n - i + 5) div 6"
proof (cases "i + 6 \<le> n")
  case True
  then have "n - i + 5 = (n - (i + 6) + 5) + 6"
    by simp
  then show ?thesis
    by (simp only: div_add_self2)
next
  case False
  with assms have a: "n - (i + 6) = 0" and b: "n - i + 5 = 6 + (n - i - 1)"
    and c: "n - i - 1 < 6"
    by simp_all
  have "(6 + (n - i - 1)) div 6 = Suc 0"
    using c by (simp only: div_add_self1 div_less)
  then show ?thesis
    by (simp only: a b)
qed

lemma overview_slides_length:
  "length (overview_slides i overview_content []) = (length overview_content - i + 5) div 6"
proof (induction "length overview_content - i" arbitrary: i rule: less_induct)
  case less
  show ?case
  proof (cases "i < length overview_content")
    case True
    then have d: "length overview_content - (i + 6) < length overview_content - i"
      by simp
    have "length (overview_slides i overview_content []) =
            Suc (length (overview_slides (i + 6) overview_content []))"
      using True by (subst overview_slides_unfold) simp
    also have "\<dots> = Suc ((length overview_content - (i + 6) + 5) div 6)"
      by (simp only: less [OF d])
    also have "\<dots> = (length overview_content - i + 5) div 6"
      using True by (rule pages_step)
    finally show ?thesis .
  next
    case False
    then have "overview_slides i overview_content [] = []"
      by (subst overview_slides_unfold) simp
    moreover from False have "length overview_content - i = 0"
      by simp
    ultimately show ?thesis
      by simp
  qed
qed

lemma overview_slides_nth:
  "j < length (overview_slides i overview_content []) \<Longrightarrow>
     overview_slides i overview_content [] ! j =
       \<lparr>title = (if i + 6 * j = 0 then ''Overview of Upcoming Slides''
                 else ''Overview of Upcoming Slides Continued''),
        body = BulletList (take 6 (drop (i + 6 * j) overview_content))\<rparr>"
proof (induction j arbitrary: i)
  case 0
  then have "i < length overview_content"
    by (subst (asm) overview_slides_unfold) (simp split: if_splits)
  then show ?case
    by (subst overview_slides_unfold) simp
next
  case (Suc j)
  then have lt: "i < length overview_content"
    by (subst (asm) overview_slides_unfold) (simp split: if_splits)
  with Suc.prems have "j < length (overview_slides (i + 6) overview_content [])"
    by (subst (asm) overview_slides_unfold) simp
  from Suc.IH [OF this] lt show ?case
    by (subst overview_slides_unfold) (simp add: add.assoc)
qed

lemma plan_titles_run:
  "slide_titles (plan_titles col other_cols extra_slides_needed user_prompt s) =
     slide_titles s @ [''Introduction to Analysis'']
     @ map (\<lambda>other_col. ''Comparison Plot: '' @ col @ '' vs '' @ other_col) other_cols
     @ map (\<lambda>other_col. ''Comparison Insights: '' @ col @ '' vs '' @ other_col) other_cols
     @ map (\<lambda>other_col. ''Detailed Insights: '' @ col @ '' vs '' @ other_col) other_cols
     @ (if extra_slides_needed then [''Index of Slides''] else [])
     @ (if lower user_prompt \<noteq> ''default analysis of one column vs others''
           \<and> str_contains ''summary'' (lower user_prompt)
        then [''Summary of Findings''] else [])
     @ [''Conclusion of Analysis'']"
  by (simp add: plan_titles_def Let_def)

lemma plan_titles_prs:
  "prs (plan_titles col other_cols extra_slides_needed user_prompt s) = prs s"
  by (simp add: plan_titles_def Let_def)

lemma cover_slide_run:
  obtains c where "prs (cover_slide e initial_state) = [\<lparr>title = c, body = TitleOnly\<rparr>]"
    and "slide_titles (cover_slide e initial_state) = [c]"
  by (simp add: cover_slide_def initial_state_def generate_with_llama_def Let_def
        split: prod.splits)

lemma build_presentation_run:
  fixes e df col plot_type min_slides user_prompt
  defines "other_cols \<equiv> filter (\<lambda>c. c \<noteq> col) (map fst (columns df))"
    and "planned \<equiv>
           slide_titles
             (plan_titles col (filter (\<lambda>c. c \<noteq> col) (map fst (columns df)))
                (2 * int (length (columns df)) < min_slides) user_prompt
                (cover_slide e initial_state))"
    and "summary \<equiv>
           (if lower user_prompt \<noteq> ''default analysis of one column vs others''
               \<and> str_contains ''summary'' (lower user_prompt)
            then [''Summary of Findings''] else [])"
  defines "padding \<equiv>
           map (\<lambda>i. ''Additional Analysis '' @ str_nat (i + 1))
             [0..<nat (min_slides - (int (length (planned @ summary)) + 1))]"
  assumes turns: "list_all (turn_completes df col plot_type)
                  (filter (\<lambda>c. c \<noteq> col) (map fst (columns df)))"
  obtains c intro comps points sa sb summ extras concl s where
    "prs (cover_slide e initial_state) = [\<lparr>title = c, body = TitleOnly\<rparr>]"
    and "slide_titles (cover_slide e initial_state) = [c]"
    and "build_presentation e df col plot_type min_slides user_prompt = Inr s"
    and "prs s =
           \<lparr>title = c, body = TitleOnly\<rparr>
           # overview_slides 0 (numbered_titles planned) []
           @ \<lparr>title = ''Introduction to Analysis'', body = intro\<rparr>
           # comps
           @ (if 2 * int (length (columns df)) < min_slides
              then add_slide [] ''Index of Slides'' (Some points) None else [])
           @ summ @ extras
           @ [\<lparr>title = ''Conclusion of Analysis'', body = concl\<rparr>,
              \<lparr>title = ''Thank You'', body = TitleOnly\<rparr>]"
    and "map title comps =
           concat (map (\<lambda>other_col.
                     [''Comparison Plot: '' @ col @ '' vs '' @ other_col,
                      ''Comparison Insights: '' @ col @ '' vs '' @ other_col,
                      ''Detailed Insights: '' @ col @ '' vs '' @ other_col]) other_cols)"
    and "split_into_bullets e (join_newline (numbered_titles planned)) 5 6 sa
           = Inr (points, sb)"
    and "map title summ = summary"
    and "map title extras = padding"
    and "slide_titles s = planned @ summary @ padding"
proof -
  let ?extra = "2 * int (length (columns df)) < min_slides"
  define s2 where "s2 = plan_titles col other_cols ?extra user_prompt (cover_slide e initial_state)"
  define s3 where "s3 = s2\<lparr>prs := overview_slides 0 (numbered_titles (slide_titles s2)) (prs s2)\<rparr>"
  obtain c where c1: "prs (cover_slide e initial_state) = [\<lparr>title = c, body = TitleOnly\<rparr>]"
    and c2: "slide_titles (cover_slide e initial_state) = [c]"
    by (rule cover_slide_run)
  have t2: "slide_titles s2 = planned"
    by (simp add: s2_def planned_def other_cols_def)
  have p3: "prs s3 = \<lparr>title = c, body = TitleOnly\<rparr> # overview_slides 0 (numbered_titles planned) []"
  proof -
    have "prs s3 = overview_slides 0 (numbered_titles planned) (prs s2)"
      by (simp add: s3_def t2)
    moreover have "prs s2 = [\<lparr>title = c, body = TitleOnly\<rparr>]"
      by (simp add: s2_def plan_titles_prs c1)
    ultimately show ?thesis
      by (simp add: overview_slides_append [of _ _ "[\<lparr>title = c, body = TitleOnly\<rparr>]"])
  qed
  have t3: "slide_titles s3 = planned"
    by (simp add: s3_def t2)
  obtain intro s4 where g4: "generated_slide e ''Introduction to Analysis'' s3 = Inr s4"
    and p4: "prs s4 = prs s3 @ [\<lparr>title = ''Introduction to Analysis'', body = intro\<rparr>]"
    and t4: "slide_titles s4 = slide_titles s3"
    by (rule generated_slide_run)
  have "list_all (turn_completes df col plot_type) other_cols"
    using turns by (simp add: other_cols_def)
  from comparison_slides_run [OF this, of e s4]
  obtain comps s5 where g5: "comparison_slides e df col plot_type other_cols s4 = Inr s5"
    and p5: "prs s5 = prs s4 @ comps"
    and m5: "map title comps =
           concat (map (\<lambda>other_col.
                     [''Comparison Plot: '' @ col @ '' vs '' @ other_col,
                      ''Comparison Insights: '' @ col @ '' vs '' @ other_col,
                      ''Detailed Insights: '' @ col @ '' vs '' @ other_col]) other_cols)"
    and t5: "slide_titles s5 = slide_titles s4"
    by blast
  obtain points sb s6 where g6: "index_slide e ?extra s5 = Inr s6"
    and sp: "split_into_bullets e (join_newline (numbered_titles (slide_titles s5))) 5 6 s5
           = Inr (points, sb)"
    and p6: "prs s6 = prs s5 @
           (if ?extra then add_slide [] ''Index of Slides'' (Some points) None else [])"
    and t6: "slide_titles s6 = slide_titles s5"
    by (rule index_slide_run)
  obtain summ s7 where g7: "summary_slide e user_prompt s6 = Inr s7"
    and p7: "prs s7 = prs s6 @ summ"
    and m7: "map title summ = summary"
    and t7: "slide_titles s7 = slide_titles s6 @ summary"
    unfolding summary_def by (rule summary_slide_run)
  obtain extras s8 where g8: "ensure_minimum_slides e min_slides s7 = Inr s8"
    and p8: "prs s8 = prs s7 @ extras"
    and m8: "map title extras =
           map (\<lambda>i. ''Additional Analysis '' @ str_nat (i + 1))
             [0..<nat (min_slides - (int (length (slide_titles s7)) + 1))]"
    and t8: "slide_titles s8 = slide_titles s7 @
           map (\<lambda>i. ''Additional Analysis '' @ str_nat (i + 1))
             [0..<nat (min_slides - (int (length (slide_titles s7)) + 1))]"
    by (rule ensure_minimum_slides_run)
  obtain concl s9 where g9: "generated_slide e ''Conclusion of Analysis'' s8 = Inr s9"
    and p9: "prs s9 = prs s8 @ [\<lparr>title = ''Conclusion of Analysis'', body = concl\<rparr>]"
    and t9: "slide_titles s9 = slide_titles s8"
    by (rule generated_slide_run)
  have t7': "slide_titles s7 = planned @ summary"
    by (simp only: t7 t6 t5 t4 t3)
  have run: "build_presentation e df col plot_type min_slides user_prompt
               = Inr (thank_you_slide s9)"
    unfolding build_presentation_def Let_def other_cols_filter
    by (simp only: other_cols_def [symmetric] s2_def [symmetric] s3_def [symmetric]
          g4 g5 g6 g7 g8 g9 and_then_Inr)
  have deck: "prs (thank_you_slide s9) =
           \<lparr>title = c, body = TitleOnly\<rparr>
           # overview_slides 0 (numbered_titles planned) []
           @ \<lparr>title = ''Introduction to Analysis'', body = intro\<rparr>
           # comps
           @ (if ?extra then add_slide [] ''Index of Slides'' (Some points) None else [])
           @ summ @ extras
           @ [\<lparr>title = ''Conclusion of Analysis'', body = concl\<rparr>,
              \<lparr>title = ''Thank You'', body = TitleOnly\<rparr>]"
    by (simp add: thank_you_slide_def p9 p8 p7 p6 p5 p4 p3)
  have titles: "slide_titles (thank_you_slide s9) = planned @ summary @ padding"
    by (simp add: thank_you_slide_def t9 t8 t7' padding_def)
  show ?thesis
    by (rule that [OF c1 c2 run deck m5 _ m7 _ titles, of s5 sb])
       (simp_all only: sp [unfolded t5 t4 t3] m8 [unfolded t7'] padding_def)
qed

lemma and_then_Inr_iff:
  "and_then m f = Inr y \<longleftrightarrow> (\<exists>x. m = Inr x \<and> f x = Inr y)"
  by (cases m) simp_all

lemma content_points_completes:
  assumes "content_points df col fc other_col oc = Inr points"
  shows "figures_available df col fc other_col oc"
  using assms
  by (cases "is_numeric_dtype fc"; cases "is_numeric_dtype oc")
     (auto simp: content_points_def figures_available_def and_then_Inr_iff)

lemma comparison_group_completes:
  assumes "comparison_group e df col plot_type other_col s = Inr s'"
  shows "turn_completes df col plot_type other_col"
  using assms
  by (auto simp: comparison_group_def turn_completes_def Let_def and_then_Inr_iff
        split: option.splits intro: content_points_completes)

lemma comparison_slides_completes:
  assumes "comparison_slides e df col plot_type others s = Inr s'"
  shows "list_all (turn_completes df col plot_type) others"
  using assms
proof (induction others arbitrary: s)
  case Nil
  then show ?case by simp
next
  case (Cons other_col rest)
  then obtain s1 where g: "comparison_group e df col plot_type other_col s = Inr s1"
    and r: "comparison_slides e df col plot_type rest s1 = Inr s'"
    by (auto simp: and_then_Inr_iff)
  from g have "turn_completes df col plot_type other_col"
    by (rule comparison_group_completes)
  moreover from r have "list_all (turn_completes df col plot_type) rest"
    by (rule Cons.IH)
  ultimately show ?case
    by simp
qed

lemma build_presentation_completes:
  assumes "build_presentation e df col plot_type min_slides user_prompt = Inr s"
  shows "list_all (turn_completes df col plot_type)
           (filter (\<lambda>c. c \<noteq> col) (map fst (columns df)))"
proof -
  from assms obtain s4 s5 where
    "comparison_slides e df col plot_type (filter (\<lambda>c. c \<noteq> col) (map fst (columns df))) s4
       = Inr s5"
    unfolding build_presentation_def Let_def other_cols_filter and_then_Inr_iff by blast
  then show ?thesis
    by (rule comparison_slides_completes)
qed

lemma build_presentation_completes_iff:
  "(\<exists>s. build_presentation e df col plot_type min_slides user_prompt = Inr s)
   \<longleftrightarrow> list_all (turn_completes df col plot_type)
         (filter (\<lambda>c. c \<noteq> col) (map fst (columns df)))"
proof
  assume "\<exists>s. build_presentation e df col plot_type min_slides user_prompt = Inr s"
  then show "list_all (turn_completes df col plot_type)
               (filter (\<lambda>c. c \<noteq> col) (map fst (columns df)))"
    by (auto dest: build_presentation_completes)
next
  assume t: "list_all (turn_completes df col plot_type)
               (filter (\<lambda>c. c \<noteq> col) (map fst (columns df)))"
  show "\<exists>s. build_presentation e df col plot_type min_slides user_prompt = Inr s"
    by (rule build_presentation_run [OF t]) (rule exI)
qed

lemma is_digit_digit_char: "d < 10 \<Longrightarrow> is_digit (digit_char d)"
  by (simp add: is_digit_def digit_char_def)

lemma str_nat_digits: "list_all is_digit (str_nat n) \<and> str_nat n \<noteq> []"
proof (induction n rule: str_nat.induct)
  case (1 n)
  show ?case
  proof (cases "n < 10")
    case True
    then show ?thesis
      by (subst str_nat.simps, subst (2) str_nat.simps) (simp add: is_digit_digit_char)
  next
    case False
    with 1 show ?thesis
      by (subst str_nat.simps, subst (2) str_nat.simps) (simp add: is_digit_digit_char)
  qed
qed

lemma two_decimals_digits:
  assumes "ds \<noteq> []" and "list_all is_digit ds" and "is_digit d1" and "is_digit d2"
  shows "two_decimals (ds @ ''.'' @ [d1, d2])" and "two_decimals (''-'' @ ds @ ''.'' @ [d1, d2])"
proof -
  from assms(1,2) obtain d rest where ds: "ds = d # rest" and d: "is_digit d"
    by (cases ds) auto
  have "d \<noteq> CHR ''-''"
    using d by (auto simp: is_digit_def)
  then have sign: "take 1 (ds @ ''.'' @ [d1, d2]) \<noteq> ''-''"
    by (simp add: ds)
  have core: "4 \<le> length (ds @ ''.'' @ [d1, d2])
      \<and> list_all is_digit (take (length (ds @ ''.'' @ [d1, d2]) - 3) (ds @ ''.'' @ [d1, d2]))
      \<and> (ds @ ''.'' @ [d1, d2]) ! (length (ds @ ''.'' @ [d1, d2]) - 3) = CHR ''.''
      \<and> list_all is_digit (drop (length (ds @ ''.'' @ [d1, d2]) - 2) (ds @ ''.'' @ [d1, d2]))"
    using assms by (cases ds) (simp_all add: nth_append)
  show "two_decimals (ds @ ''.'' @ [d1, d2])"
    unfolding two_decimals_def Let_def using sign core by simp
  show "two_decimals (''-'' @ ds @ ''.'' @ [d1, d2])"
    unfolding two_decimals_def Let_def using core by simp
qed

lemma format_2f_two_decimals: "two_decimals (format_2f (Finite neg m e))"
proof -
  define h where "h = round_half_even (m * 100) e"
  have a: "str_nat (h div 100) \<noteq> []" and b: "list_all is_digit (str_nat (h div 100))"
    using str_nat_digits [of "h div 100"] by simp_all
  have c: "is_digit (digit_char (h mod 100 div 10))"
    by (rule is_digit_digit_char) (simp add: div_less_iff_less_mult)
  have d: "is_digit (digit_char (h mod 10))"
    by (rule is_digit_digit_char) simp
  show ?thesis
    using two_decimals_digits [OF a b c d] by (cases neg) (simp_all add: Let_def h_def)
qed

lemma numbered_titles_length: "length (numbered_titles ts) = length ts - 3"
  by (simp add: numbered_titles_def enumerate_eq_zip)

lemma length_concat_triples:
  "length (concat (map (\<lambda>x. [f x, g x, h x]) xs)) = 3 * length xs"
  by (induction xs) auto

lemma map_shift_upt: "map (\<lambda>i. f (i + 1)) [0..<k] = map f [1..<Suc k]"
  by (induction k) auto

lemma overview_slides_titles:
  assumes "sl \<in> set (overview_slides i overview_content [])"
  shows "title sl = ''Overview of Upcoming Slides''
         \<or> title sl = ''Overview of Upcoming Slides Continued''"
proof -
  from assms obtain j where "j < length (overview_slides i overview_content [])"
    and "overview_slides i overview_content [] ! j = sl"
    by (auto simp: in_set_conv_nth)
  then have "sl = \<lparr>title = (if i + 6 * j = 0 then ''Overview of Upcoming Slides''
                             else ''Overview of Upcoming Slides Continued''),
                    body = BulletList (take 6 (drop (i + 6 * j) overview_content))\<rparr>"
    using overview_slides_nth [of j i overview_content] by simp
  then show ?thesis
    by (cases "i + 6 * j = 0") simp_all
qed

lemma planned_length:
  "length (slide_titles (plan_titles col other_cols extra_slides_needed user_prompt s)) =
     length (slide_titles s) + 2 + 3 * length other_cols
     + (if extra_slides_needed then 1 else 0)
     + (if lower user_prompt \<noteq> ''default analysis of one column vs others''
           \<and> str_contains ''summary'' (lower user_prompt) then 1 else 0)"
  by (simp add: plan_titles_run)

lemma comparison_titles_not:
  assumes "t \<in> set (concat (map (\<lambda>other_col.
                     [''Comparison Plot: '' @ col @ '' vs '' @ other_col,
                      ''Comparison Insights: '' @ col @ '' vs '' @ other_col,
                      ''Detailed Insights: '' @ col @ '' vs '' @ other_col]) others))"
  shows "t \<noteq> ''Index of Slides''" and "t \<noteq> ''Summary of Findings''"
  using assms by auto

lemma additional_titles_not:
  assumes "t \<in> set (map (\<lambda>i. ''Additional Analysis '' @ str_nat (i + 1)) idxs)"
  shows "t \<noteq> ''Index of Slides''" and "t \<noteq> ''Summary of Findings''"
  using assms by auto

lemma overview_titles_not:
  assumes "sl \<in> set (overview_slides i overview_content [])"
  shows "title sl \<noteq> ''Index of Slides''" and "title sl \<noteq> ''Summary of Findings''"
  using overview_slides_titles [OF assms] by auto

lemma overview_slides_bullets:
  "concat (map bullet_points (overview_slides i overview_content [])) = drop i overview_content"
proof (induction "length overview_content - i" arbitrary: i rule: less_induct)
  case less
  show ?case
  proof (cases "i < length overview_content")
    case True
    then have d: "length overview_content - (i + 6) < length overview_content - i"
      by simp
    have "concat (map bullet_points (overview_slides i overview_content [])) =
            take 6 (drop i overview_content)
            @ concat (map bullet_points (overview_slides (i + 6) overview_content []))"
      using True by (subst overview_slides_unfold) (simp add: bullet_points_def)
    also have "\<dots> = take 6 (drop i overview_content) @ drop 6 (drop i overview_content)"
      by (simp only: less [OF d] drop_drop add.commute)
    also have "\<dots> = drop i overview_content"
      by (rule append_take_drop_id)
    finally show ?thesis .
  next
    case False
    then show ?thesis
      by (subst overview_slides_unfold) simp
  qed
qed

lemma overview_pages:
  assumes "j < length (overview_slides 0 overview_content [])"
  shows "overview_slides 0 overview_content [] ! j =
           \<lparr>title = (if j = 0 then ''Overview of Upcoming Slides''
                     else ''Overview of Upcoming Slides Continued''),
            body = BulletList (take 6 (drop (6 * j) overview_content))\<rparr>"
  using overview_slides_nth [OF assms] by simp

section \<open>The chart of a column pair\<close>

text \<open>
  C2. For a requested plot type among Scatter, Hexbin, Box and Bar, the chart drawn for a
  pair of columns is fixed by the two numeric flags and the request: when both columns
  are numeric the requested plot is drawn and \<open>actual_plot_type\<close> stays the request; when
  only the other column is numeric a bar chart of its mean grouped by the focus column
  is drawn; when only the focus column is numeric a bar chart of its count grouped by
  the other column is drawn; when neither is numeric a stacked bar chart of the cross
  tabulation is drawn. Unless both columns are numeric, another request gives the same
  chart.
\<close>

theorem draw_chart_classification:
  assumes "plot_type \<in> {''Scatter'', ''Hexbin'', ''Box'', ''Bar''}"
  shows "actual_plot_type (draw_chart is_numeric_col is_numeric_other plot_type col other_col) =
           (if is_numeric_col \<and> is_numeric_other then plot_type
            else if is_numeric_other then ''Bar''
            else if is_numeric_col then ''Bar''
            else ''Stacked Bar'')
         \<and> drawing (draw_chart is_numeric_col is_numeric_other plot_type col other_col) =
           (if is_numeric_col \<and> is_numeric_other then
              (if plot_type = ''Scatter'' then ScatterPlot
               else if plot_type = ''Hexbin'' then HexbinPlot
               else if plot_type = ''Box'' then BoxPlot
               else BinnedMeanBar)
            else if is_numeric_other then GroupedMeanBar
            else if is_numeric_col then GroupedCountBar
            else StackedCrosstabBar)
         \<and> (\<not> (is_numeric_col \<and> is_numeric_other) \<longrightarrow>
              draw_chart is_numeric_col is_numeric_other plot_type col other_col =
              draw_chart is_numeric_col is_numeric_other other_plot_type col other_col)"
  using assms by (auto simp: draw_chart_def)

theorem draw_chart_classification_witness:
  "''Hexbin'' \<in> {''Scatter'', ''Hexbin'', ''Box'', ''Bar''}
   \<and> actual_plot_type (draw_chart False True ''Hexbin'' ''A'' ''B'') = ''Bar''
   \<and> drawing (draw_chart False True ''Hexbin'' ''A'' ''B'') = GroupedMeanBar
   \<and> draw_chart False True ''Hexbin'' ''A'' ''B'' = draw_chart False True ''Scatter'' ''A'' ''B''
   \<and> actual_plot_type (draw_chart True True ''Hexbin'' ''A'' ''B'') = ''Hexbin''
   \<and> drawing (draw_chart True True ''Hexbin'' ''A'' ''B'') = HexbinPlot"
proof -
  have h: "''Hexbin'' \<in> {''Scatter'', ''Hexbin'', ''Box'', ''Bar''}"
    by simp
  show ?thesis
    using h draw_chart_classification [OF h, of False True "''A''" "''B''" "''Scatter''"]
      draw_chart_classification [OF h, of True True "''A''" "''B''" "''Scatter''"]
    by auto
qed

section \<open>The bullet list of a generated text\<close>

text \<open>
  C3. When the text has fewer stripped non-empty lines than \<open>min_points\<close>,
  \<open>split_into_bullets\<close> returns the five fixed failure bullets, in their order and with
  nothing of the text, and draws no random number.
\<close>

theorem split_into_bullets_too_few_lines:
  assumes "int (length (stripped_lines text)) < min_points"
  shows "split_into_bullets e text min_points max_points s =
           Inr ([''Insufficient data in CSV.'',
                 ''Analysis cannot be completed.'',
                 ''Please check CSV content.'',
                 ''No insights can be derived.'',
                 ''This is an error message.''], s)"
  using assms by (simp add: split_into_bullets_def failure_bullets_def)

theorem split_into_bullets_too_few_lines_witness:
  "int (length (stripped_lines ''Only one line.'')) < 5 \<and>
   split_into_bullets demo_env ''Only one line.'' 5 6 initial_state =
           Inr ([''Insufficient data in CSV.'',
                 ''Analysis cannot be completed.'',
                 ''Please check CSV content.'',
                 ''No insights can be derived.'',
                 ''This is an error message.''], initial_state)"
proof -
  have h: "int (length (stripped_lines ''Only one line.'')) < 5"
    by (simp add: stripped_lines_def strip_def isspace_def)
  show ?thesis
    using h split_into_bullets_too_few_lines [OF h] by simp
qed

text \<open>
  C4. When the text has at least \<open>min_points\<close> stripped non-empty lines (with
  \<open>0 < min_points \<le> max_points\<close>, as for the defaults 5 and 6), the number of bullets
  is the value that \<open>random.randint\<close> draws on the range from \<open>min_points\<close> to the smaller
  of \<open>max_points\<close> and the number of lines; a draw inside that range gives exactly that
  many bullets, and they are the first lines of the text in their order.
\<close>

theorem split_into_bullets_prefix:
  assumes "0 < min_points" and "min_points \<le> max_points"
    and "min_points \<le> int (length (stripped_lines text))"
    and "num_points = randint e (rand_calls s) min_points
                        (min max_points (int (length (stripped_lines text))))"
    and "min_points \<le> num_points"
    and "num_points \<le> min max_points (int (length (stripped_lines text)))"
  shows "split_into_bullets e text min_points max_points s =
           Inr (take (nat num_points) (stripped_lines text),
                s\<lparr>rand_calls := Suc (rand_calls s)\<rparr>)
         \<and> int (length (take (nat num_points) (stripped_lines text))) = num_points"
proof -
  let ?lines = "stripped_lines text"
  let ?hi = "min max_points (int (length ?lines))"
  have ne: "?lines \<noteq> []"
    using assms(1,3) by auto
  have lo: "\<not> int (length ?lines) < min_points"
    using assms(3) by simp
  have range: "\<not> ?hi < min_points"
    using assms(2,3) by simp
  have slice: "py_slice_to ?lines num_points = take (nat num_points) ?lines"
    using assms(1,5) by (simp add: py_slice_to_def)
  have "split_into_bullets e text min_points max_points s =
          Inr (py_slice_to ?lines num_points, s\<lparr>rand_calls := Suc (rand_calls s)\<rparr>)"
    unfolding split_into_bullets_def py_randint_def Let_def
    using ne lo range assms(4) by simp
  moreover have "int (length (take (nat num_points) ?lines)) = num_points"
  proof -
    have "0 \<le> num_points" and "nat num_points \<le> length ?lines"
      using assms(1,5,6) by linarith+
    then show ?thesis by simp
  qed
  ultimately show ?thesis
    by (simp add: slice)
qed

theorem split_into_bullets_prefix_witness:
  "(0::int) < 5 \<and> (5::int) \<le> 6 \<and> 5 \<le> int (length (stripped_lines demo_text))
   \<and> 6 = randint demo_env (rand_calls initial_state) 5
            (min 6 (int (length (stripped_lines demo_text))))
   \<and> split_into_bullets demo_env demo_text 5 6 initial_state =
       Inr ([''one'', ''two'', ''three'', ''four'', ''five'', ''six''],
            initial_state\<lparr>rand_calls := Suc (rand_calls initial_state)\<rparr>)
   \<and> int (length (take (nat 6) (stripped_lines demo_text))) = 6"
proof -
  have h3: "5 \<le> int (length (stripped_lines demo_text))"
    by (simp add: demo_text_lines)
  have h4: "6 = randint demo_env (rand_calls initial_state) 5
                  (min 6 (int (length (stripped_lines demo_text))))"
    by (simp add: demo_text_lines demo_env_def)
  have h6: "(6::int) \<le> min 6 (int (length (stripped_lines demo_text)))"
    by (simp add: demo_text_lines)
  show ?thesis
    using h3 h4
      split_into_bullets_prefix [of 5 6 demo_text 6 demo_env initial_state, OF _ _ h3 h4 _ h6]
    by (simp add: demo_text_lines)
qed

section \<open>A focus column that the dataset does not have\<close>

text \<open>
  C10. The focus column is never checked against the columns of the dataset. When the
  dataset is readable and not empty and the focus name is not one of its columns, every
  column counts as an other column, and the first turn of the comparison loop raises
  \<open>KeyError\<close> on \<open>df[col]\<close>: the run ends with that exception, not with a
  \<open>(False, message)\<close> result.
\<close>

theorem missing_focus_column_raises:
  assumes "\<not> df_empty df" and "col \<notin> fst ` set (columns df)"
  shows "[c. c \<leftarrow> map fst (columns df), c \<noteq> col] = map fst (columns df)
         \<and> generate_eda_report e (Inr df) col plot_type min_slides user_prompt
             = Inl (KeyError col)"
proof -
  have others: "[c. c \<leftarrow> map fst (columns df), c \<noteq> col] = map fst (columns df)"
    unfolding other_cols_filter using assms(2) by (auto simp: filter_id_conv)
  from assms(1) obtain other_col rest where cols: "map fst (columns df) = other_col # rest"
    by (cases "columns df") (auto simp: df_empty_def)
  have first: "comparison_slides e df col plot_type (map fst (columns df)) s = Inl (KeyError col)"
    for s
    using assms(2) by (simp add: cols comparison_group_def getitem_absent)
  define s3 where "s3 =
    (let s2 = plan_titles col (map fst (columns df)) (2 * int (length (columns df)) < min_slides)
                user_prompt (cover_slide e initial_state)
     in s2\<lparr>prs := overview_slides 0 (numbered_titles (slide_titles s2)) (prs s2)\<rparr>)"
  obtain b s4 where "generated_slide e ''Introduction to Analysis'' s3 = Inr s4"
    by (rule generated_slide_run)
  then have "build_presentation e df col plot_type min_slides user_prompt = Inl (KeyError col)"
    unfolding build_presentation_def others Let_def s3_def [unfolded Let_def, symmetric]
    by (simp add: first)
  then show ?thesis
    using assms(1) others by (simp add: generate_eda_report_def)
qed

theorem missing_focus_column_raises_witness:
  "\<not> df_empty demo_df \<and> ''Z'' \<notin> fst ` set (columns demo_df)
   \<and> [c. c \<leftarrow> map fst (columns demo_df), c \<noteq> ''Z''] = map fst (columns demo_df)
   \<and> generate_eda_report demo_env (Inr demo_df) ''Z'' ''Scatter'' 5 default_prompt
       = Inl (KeyError ''Z'')"
proof -
  have h1: "\<not> df_empty demo_df"
    by (simp add: df_empty_def demo_df_def)
  have h2: "''Z'' \<notin> fst ` set (columns demo_df)"
    by (simp add: demo_df_def)
  show ?thesis
    using h1 h2 missing_focus_column_raises [OF h1 h2, of demo_env "''Scatter''" 5 default_prompt]
    by simp
qed

section \<open>The six bullets of a Comparison Insights slide\<close>

text \<open>
  C5, as the code has it. For every column pair whose chart is drawn and whose
  statistics are all computed (an exception of either ends the run, nothing catches it),
  the Comparison Insights slide carries the six bullets of \<open>content_points\<close> as they
  are, whatever the random source and the text generator do: the row count; the correlation when both columns are numeric and
  the dtype of the focus column otherwise; the mean or the unique count of the other
  column; its minimum or its most frequent value; its maximum or its diversity, High
  exactly when the unique count is above 5; the mean or the most frequent value of the
  focus column. The correlation, the means, the minimum and the maximum are printed
  with the format \<open>.2f\<close>, which gives exactly two decimals for every finite value and
  \<open>nan\<close>, \<open>inf\<close> or \<open>-inf\<close> for a value that is not a number or is infinite; the row
  count and the unique counts are printed as plain integers.
\<close>

theorem comparison_insights_bullets:
  assumes "getitem df col = Inr fc" and "getitem df other_col = Inr oc"
    and "plot_chart df col other_col
           (draw_chart (is_numeric_dtype fc) (is_numeric_dtype oc) plot_type col other_col) = None"
    and "figures_available df col fc other_col oc"
  shows "\<exists>plot detail points s'.
           comparison_group e df col plot_type other_col s = Inr s'
           \<and> content_points df col fc other_col oc = Inr points
           \<and> prs s' = prs s @
                [plot,
                 \<lparr>title = ''Comparison Insights: '' @ col @ '' vs '' @ other_col,
                  body = BulletList points\<rparr>,
                 detail]
           \<and> length points = 6
           \<and> points ! 0 = ''Rows analyzed: '' @ str_nat (nrows df) @ ''. Total entries in CSV.''
           \<and> points ! 1 =
               (if is_numeric_dtype fc \<and> is_numeric_dtype oc
                then ''Correlation: '' @ format_2f (projr (corr df col other_col)) @ ''. Shows ''
                       @ col @ '' vs '' @ other_col @ '' link.''
                else col @ '' type: '' @ dtype fc @ ''. Non-numeric data detected.'')
           \<and> points ! 2 =
               (if is_numeric_dtype oc
                then other_col @ '' mean: '' @ format_2f (projr (mean oc))
                       @ ''. Average from CSV data.''
                else other_col @ '' unique: '' @ str_nat (nunique oc)
                       @ ''. Distinct values counted.'')
           \<and> points ! 3 =
               (if is_numeric_dtype oc
                then other_col @ '' min: '' @ format_2f (projr (min_value oc))
                       @ ''. Minimum value in CSV.''
                else other_col @ '' top: '' @ projr (mode0 oc) @ ''. Most frequent in CSV.'')
           \<and> points ! 4 =
               (if is_numeric_dtype oc
                then other_col @ '' max: '' @ format_2f (projr (max_value oc))
                       @ ''. Maximum value in CSV.''
                else other_col @ '' diversity: '' @ (if 5 < nunique oc then ''High'' else ''Low'')
                       @ ''. Variation in data.'')
           \<and> points ! 5 =
               (if is_numeric_dtype fc
                then col @ '' stat: '' @ format_2f (projr (mean fc))
                       @ ''. Numeric average from CSV.''
                else col @ '' top: '' @ projr (mode0 fc) @ ''. Top category in CSV.'')
           \<and> (\<forall>neg m ex. two_decimals (format_2f (Finite neg m ex)))
           \<and> format_2f NaN = ''nan''
           \<and> format_2f (Infinity False) = ''inf''
           \<and> format_2f (Infinity True) = ''-inf''"
proof -
  obtain d points s' where run: "comparison_group e df col plot_type other_col s = Inr s'"
    and cp: "content_points df col fc other_col oc = Inr points"
    and deck: "prs s' = prs s @
           [\<lparr>title = ''Comparison Plot: '' @ col @ '' vs '' @ other_col,
             body = Picture (draw_chart (is_numeric_dtype fc) (is_numeric_dtype oc)
                               plot_type col other_col)\<rparr>,
            \<lparr>title = ''Comparison Insights: '' @ col @ '' vs '' @ other_col,
             body = BulletList points\<rparr>,
            \<lparr>title = ''Detailed Insights: '' @ col @ '' vs '' @ other_col, body = d\<rparr>]"
    using comparison_group_run [OF assms] by blast
  note fig = content_points_figures [OF assms(4), unfolded cp, simplified]
  have len: "length points = 6"
    using cp by (rule content_points_length)
  have b0: "points ! 0 = ''Rows analyzed: '' @ str_nat (nrows df) @ ''. Total entries in CSV.''"
    by (subst fig) simp
  have b1: "points ! 1 =
               (if is_numeric_dtype fc \<and> is_numeric_dtype oc
                then ''Correlation: '' @ format_2f (projr (corr df col other_col)) @ ''. Shows ''
                       @ col @ '' vs '' @ other_col @ '' link.''
                else col @ '' type: '' @ dtype fc @ ''. Non-numeric data detected.'')"
    by (subst fig) simp
  have b2: "points ! 2 =
               (if is_numeric_dtype oc
                then other_col @ '' mean: '' @ format_2f (projr (mean oc))
                       @ ''. Average from CSV data.''
                else other_col @ '' unique: '' @ str_nat (nunique oc)
                       @ ''. Distinct values counted.'')"
    by (subst fig) simp
  have b3: "points ! 3 =
               (if is_numeric_dtype oc
                then other_col @ '' min: '' @ format_2f (projr (min_value oc))
                       @ ''. Minimum value in CSV.''
                else other_col @ '' top: '' @ projr (mode0 oc) @ ''. Most frequent in CSV.'')"
    by (subst fig) simp
  have b4: "points ! 4 =
               (if is_numeric_dtype oc
                then other_col @ '' max: '' @ format_2f (projr (max_value oc))
                       @ ''. Maximum value in CSV.''
                else other_col @ '' diversity: '' @ (if 5 < nunique oc then ''High'' else ''Low'')
                       @ ''. Variation in data.'')"
    by (subst fig) simp
  have b5: "points ! 5 =
               (if is_numeric_dtype fc
                then col @ '' stat: '' @ format_2f (projr (mean fc))
                       @ ''. Numeric average from CSV.''
                else col @ '' top: '' @ projr (mode0 fc) @ ''. Top category in CSV.'')"
    by (subst fig) simp
  have td: "\<forall>neg m ex. two_decimals (format_2f (Finite neg m ex))"
    by (intro allI format_2f_two_decimals)
  have nan: "format_2f NaN = ''nan''"
    by simp
  have inf: "format_2f (Infinity False) = ''inf''"
    by simp
  have ninf: "format_2f (Infinity True) = ''-inf''"
    by simp
  show ?thesis
    by (intro exI conjI) (fact run, fact cp, fact deck, fact len, fact b0, fact b1, fact b2,
      fact b3, fact b4, fact b5, fact td, fact nan, fact inf, fact ninf)
qed

theorem comparison_insights_bullets_witness:
  "getitem demo_df ''A'' = Inr numeric_column \<and> getitem demo_df ''B'' = Inr text_column
   \<and> plot_chart demo_df ''A'' ''B''
       (draw_chart (is_numeric_dtype numeric_column) (is_numeric_dtype text_column)
          ''Scatter'' ''A'' ''B'') = None
   \<and> figures_available demo_df ''A'' numeric_column ''B'' text_column
   \<and> (\<exists>points. content_points demo_df ''A'' numeric_column ''B'' text_column = Inr points
         \<and> length points = 6
         \<and> points ! 5 = ''A stat: '' @ format_2f (Finite False 2 0)
                          @ ''. Numeric average from CSV.'')
   \<and> two_decimals (format_2f (Finite False 2 0))"
proof -
  have h1: "getitem demo_df ''A'' = Inr numeric_column"
    by (simp add: getitem_def demo_df_def)
  have h2: "getitem demo_df ''B'' = Inr text_column"
    by (simp add: getitem_def demo_df_def)
  have h3: "plot_chart demo_df ''A'' ''B''
       (draw_chart (is_numeric_dtype numeric_column) (is_numeric_dtype text_column)
          ''Scatter'' ''A'' ''B'') = None"
    by (simp add: demo_df_def)
  have h4: "figures_available demo_df ''A'' numeric_column ''B'' text_column"
    by (simp add: figures_available_def numeric_column_def text_column_def)
  have m: "is_numeric_dtype numeric_column" "projr (mean numeric_column) = Finite False 2 0"
    by (simp_all add: numeric_column_def)
  from comparison_insights_bullets [OF h1 h2 h3 h4, of demo_env initial_state]
  obtain points where cp: "content_points demo_df ''A'' numeric_column ''B'' text_column = Inr points"
    and len: "length points = 6"
    and b5: "points ! 5 =
               (if is_numeric_dtype numeric_column
                then ''A'' @ '' stat: '' @ format_2f (projr (mean numeric_column))
                       @ ''. Numeric average from CSV.''
                else ''A'' @ '' top: '' @ projr (mode0 numeric_column) @ ''. Top category in CSV.'')"
    and td: "\<forall>neg m ex. two_decimals (format_2f (Finite neg m ex))"
    by blast
  from b5 m have b5': "points ! 5 = ''A stat: '' @ format_2f (Finite False 2 0)
                          @ ''. Numeric average from CSV.''"
    by simp
  from td have t: "two_decimals (format_2f (Finite False 2 0))"
    by blast
  from cp len b5' have "\<exists>points. content_points demo_df ''A'' numeric_column ''B'' text_column = Inr points
         \<and> length points = 6
         \<and> points ! 5 = ''A stat: '' @ format_2f (Finite False 2 0)
                          @ ''. Numeric average from CSV.''"
    by blast
  with h1 h2 h3 h4 t show ?thesis
    by blast
qed

text \<open>
  C5 as stated fails on the figures: the row count and the unique count are printed
  without decimals, and a correlation that is not a number is printed as \<open>nan\<close>.
\<close>

theorem comparison_insights_figures_counterexample:
  "content_points demo_df ''A'' numeric_column ''B'' text_column =
     Inr [''Rows analyzed: 3. Total entries in CSV.'',
          ''A type: int64. Non-numeric data detected.'',
          ''B unique: 2. Distinct values counted.'',
          ''B top: x. Most frequent in CSV.'',
          ''B diversity: Low. Variation in data.'',
          ''A stat: 2.00. Numeric average from CSV.'']
   \<and> str_nat (nrows demo_df) = ''3'' \<and> \<not> two_decimals ''3''
   \<and> str_nat (nunique text_column) = ''2'' \<and> \<not> two_decimals ''2''
   \<and> content_points demo_df3 ''A'' numeric_column ''C'' constant_column =
       Inr [''Rows analyzed: 3. Total entries in CSV.'',
            ''Correlation: nan. Shows A vs C link.'',
            ''C mean: 5.00. Average from CSV data.'',
            ''C min: 5.00. Minimum value in CSV.'',
            ''C max: 5.00. Maximum value in CSV.'',
            ''A stat: 2.00. Numeric average from CSV.'']
   \<and> corr demo_df3 ''A'' ''C'' = Inr NaN
   \<and> format_2f NaN = ''nan'' \<and> \<not> two_decimals ''nan''"
  by code_simp
section \<open>The minimum number of slides\<close>

text \<open>
  C1. From any state, the padding step takes \<open>current_slides = len(slide_titles) + 1\<close>
  and adds the slides Additional Analysis 1, 2, ... in a row, tracking their titles,
  until that count has reached \<open>min_slides\<close>: afterwards the count is the larger of
  its old value and \<open>min_slides\<close>. For a readable non-empty dataset, the run produces
  a deck exactly when every turn of the comparison loop completes (both columns exist,
  the chart is drawn and the statistics are computed; an exception there ends the run,
  see \<open>build_presentation_completes_iff\<close>), and the deck it produces has at least
  \<open>min_slides\<close> slides, for every value of \<open>min_slides\<close> (in particular from 3 on); it
  is returned when the conversion succeeds.
\<close>

theorem minimum_slide_count:
  assumes "\<not> df_empty df"
    and "list_all (turn_completes df col plot_type)
           (filter (\<lambda>c. c \<noteq> col) (map fst (columns df)))"
  shows "(\<exists>new s1.
            ensure_minimum_slides e min_slides st = Inr s1
            \<and> prs s1 = prs st @ new
            \<and> map title new =
                map (\<lambda>n. ''Additional Analysis '' @ str_nat n)
                  [1..<Suc (nat (min_slides - (int (length (slide_titles st)) + 1)))]
            \<and> slide_titles s1 = slide_titles st @ map title new
            \<and> int (length (slide_titles s1)) + 1
                = max (int (length (slide_titles st)) + 1) min_slides)
         \<and> (\<exists>s. build_presentation e df col plot_type min_slides user_prompt = Inr s
                \<and> min_slides \<le> int (length (prs s))
                \<and> generate_eda_report e (Inr df) col plot_type min_slides user_prompt =
                    (case libreoffice e of
                       None \<Rightarrow> Inr (True, OdpBytes (prs s))
                     | Some msg \<Rightarrow> Inr (False, Message (''Error converting to ODP: '' @ msg))))"
proof
  obtain new s1 where r: "ensure_minimum_slides e min_slides st = Inr s1"
    and p: "prs s1 = prs st @ new"
    and m: "map title new =
           map (\<lambda>i. ''Additional Analysis '' @ str_nat (i + 1))
             [0..<nat (min_slides - (int (length (slide_titles st)) + 1))]"
    and t: "slide_titles s1 = slide_titles st @
           map (\<lambda>i. ''Additional Analysis '' @ str_nat (i + 1))
             [0..<nat (min_slides - (int (length (slide_titles st)) + 1))]"
    by (rule ensure_minimum_slides_run)
  have m': "map title new =
                map (\<lambda>n. ''Additional Analysis '' @ str_nat n)
                  [1..<Suc (nat (min_slides - (int (length (slide_titles st)) + 1)))]"
    unfolding m by (rule map_shift_upt)
  have t': "slide_titles s1 = slide_titles st @ map title new"
    by (simp only: t m)
  have "int (length (slide_titles s1)) + 1 = max (int (length (slide_titles st)) + 1) min_slides"
    unfolding t by simp
  with r p m' t' show "\<exists>new s1.
            ensure_minimum_slides e min_slides st = Inr s1
            \<and> prs s1 = prs st @ new
            \<and> map title new =
                map (\<lambda>n. ''Additional Analysis '' @ str_nat n)
                  [1..<Suc (nat (min_slides - (int (length (slide_titles st)) + 1)))]
            \<and> slide_titles s1 = slide_titles st @ map title new
            \<and> int (length (slide_titles s1)) + 1
                = max (int (length (slide_titles st)) + 1) min_slides"
    by blast
next
  let ?others = "filter (\<lambda>c. c \<noteq> col) (map fst (columns df))"
  let ?extra = "2 * int (length (columns df)) < min_slides"
  let ?fires = "lower user_prompt \<noteq> ''default analysis of one column vs others''
                  \<and> str_contains ''summary'' (lower user_prompt)"
  let ?planned = "slide_titles (plan_titles col ?others ?extra user_prompt
                                 (cover_slide e initial_state))"
  from assms(2) obtain c intro comps points sa sb summ extras concl s where
    c1: "prs (cover_slide e initial_state) = [\<lparr>title = c, body = TitleOnly\<rparr>]"
    and c2: "slide_titles (cover_slide e initial_state) = [c]"
    and run: "build_presentation e df col plot_type min_slides user_prompt = Inr s"
    and deck: "prs s =
           \<lparr>title = c, body = TitleOnly\<rparr>
           # overview_slides 0 (numbered_titles ?planned) []
           @ \<lparr>title = ''Introduction to Analysis'', body = intro\<rparr>
           # comps
           @ (if ?extra then add_slide [] ''Index of Slides'' (Some points) None else [])
           @ summ @ extras
           @ [\<lparr>title = ''Conclusion of Analysis'', body = concl\<rparr>,
              \<lparr>title = ''Thank You'', body = TitleOnly\<rparr>]"
    and mc: "map title comps =
           concat (map (\<lambda>other_col.
                     [''Comparison Plot: '' @ col @ '' vs '' @ other_col,
                      ''Comparison Insights: '' @ col @ '' vs '' @ other_col,
                      ''Detailed Insights: '' @ col @ '' vs '' @ other_col]) ?others)"
    and sp: "split_into_bullets e (join_newline (numbered_titles ?planned)) 5 6 sa
           = Inr (points, sb)"
    and ms: "map title summ = (if ?fires then [''Summary of Findings''] else [])"
    and me: "map title extras =
           map (\<lambda>i. ''Additional Analysis '' @ str_nat (i + 1))
             [0..<nat (min_slides - (int (length (?planned
                  @ (if ?fires then [''Summary of Findings''] else []))) + 1))]"
    and ts: "slide_titles s = ?planned @ (if ?fires then [''Summary of Findings''] else [])
           @ map (\<lambda>i. ''Additional Analysis '' @ str_nat (i + 1))
             [0..<nat (min_slides - (int (length (?planned
                  @ (if ?fires then [''Summary of Findings''] else []))) + 1))]"
    by (rule build_presentation_run)
  define n where "n = length ?others"
  define ide :: nat where "ide = (if ?extra then 1 else 0)"
  define sm :: nat where "sm = (if ?fires then 1 else 0)"
  define ov where "ov = length (overview_slides 0 (numbered_titles ?planned) [])"
  have lp: "length ?planned = 3 + 3 * n + ide + sm"
    by (simp add: planned_length c2 n_def ide_def sm_def)
  have lc: "length comps = 3 * n"
    using arg_cong [OF mc, of length] by (simp add: length_concat_triples n_def)
  have ls: "length summ = sm"
    using arg_cong [OF ms, of length] by (simp add: sm_def)
  have le: "length extras = nat (min_slides - (int (3 + 3 * n + ide + sm + sm) + 1))"
    using arg_cong [OF me, of length] lp by (simp add: sm_def)
  have lo: "ov = (3 * n + ide + sm + 5) div 6"
    by (simp add: ov_def overview_slides_length numbered_titles_length lp)
  have "sm \<le> ov"
  proof (cases "sm = 0")
    case False
    then have "sm = 1"
      by (simp add: sm_def split: if_splits)
    moreover have "0 < (3 * n + ide + 1 + 5) div 6"
      by (simp add: div_greater_zero_iff)
    ultimately show ?thesis
      by (simp add: lo)
  qed simp
  moreover have "length (prs s) = 4 + ov + 3 * n + ide + sm + length extras"
    by (simp add: deck lc ls ov_def ide_def add_slide_def)
  ultimately have "min_slides \<le> int (length (prs s))"
    unfolding le by linarith
  moreover have "generate_eda_report e (Inr df) col plot_type min_slides user_prompt =
                    (case libreoffice e of
                       None \<Rightarrow> Inr (True, OdpBytes (prs s))
                     | Some msg \<Rightarrow> Inr (False, Message (''Error converting to ODP: '' @ msg)))"
    using assms(1) run by (simp add: generate_eda_report_def split: option.splits)
  ultimately show "\<exists>s. build_presentation e df col plot_type min_slides user_prompt = Inr s
                \<and> min_slides \<le> int (length (prs s))
                \<and> generate_eda_report e (Inr df) col plot_type min_slides user_prompt =
                    (case libreoffice e of
                       None \<Rightarrow> Inr (True, OdpBytes (prs s))
                     | Some msg \<Rightarrow> Inr (False, Message (''Error converting to ODP: '' @ msg)))"
    using run by blast
qed

theorem minimum_slide_count_witness:
  "\<not> df_empty demo_df
   \<and> list_all (turn_completes demo_df ''A'' ''Scatter'')
       (filter (\<lambda>c. c \<noteq> ''A'') (map fst (columns demo_df)))
   \<and> (\<exists>s. build_presentation demo_env demo_df ''A'' ''Scatter'' 9 default_prompt = Inr s
          \<and> 9 \<le> int (length (prs s)))"
proof -
  have h1: "\<not> df_empty demo_df"
    by (simp add: df_empty_def demo_df_def)
  have h2: "list_all (turn_completes demo_df ''A'' ''Scatter'')
       (filter (\<lambda>c. c \<noteq> ''A'') (map fst (columns demo_df)))"
    by (rule demo_df_turns)
  show ?thesis
    using h1 h2
      minimum_slide_count [OF h1 h2, where e = demo_env and min_slides = 9
        and user_prompt = default_prompt and st = initial_state]
    by blast
qed
section \<open>When the Index of Slides slide is added\<close>

text \<open>
  C8, as the code has it. In a run that reaches the end of the comparison loop (every
  turn completes: the chart is drawn and the statistics are computed), a slide titled
  Index of Slides is added after the cover exactly when \<open>min_slides > 2 * num_cols\<close>,
  where \<open>num_cols\<close> is the number of columns of the dataset.
\<close>

theorem index_slide_condition:
  assumes "list_all (turn_completes df col plot_type)
             (filter (\<lambda>c. c \<noteq> col) (map fst (columns df)))"
  shows "\<exists>s. build_presentation e df col plot_type min_slides user_prompt = Inr s
             \<and> (''Index of Slides'' \<in> set (map title (tl (prs s)))
                  \<longleftrightarrow> 2 * int (length (columns df)) < min_slides)"
proof -
  let ?others = "filter (\<lambda>c. c \<noteq> col) (map fst (columns df))"
  let ?extra = "2 * int (length (columns df)) < min_slides"
  let ?fires = "lower user_prompt \<noteq> ''default analysis of one column vs others''
                  \<and> str_contains ''summary'' (lower user_prompt)"
  let ?planned = "slide_titles (plan_titles col ?others ?extra user_prompt
                                 (cover_slide e initial_state))"
  from assms obtain c intro comps points sa sb summ extras concl s where
    c1: "prs (cover_slide e initial_state) = [\<lparr>title = c, body = TitleOnly\<rparr>]"
    and c2: "slide_titles (cover_slide e initial_state) = [c]"
    and run: "build_presentation e df col plot_type min_slides user_prompt = Inr s"
    and deck: "prs s =
           \<lparr>title = c, body = TitleOnly\<rparr>
           # overview_slides 0 (numbered_titles ?planned) []
           @ \<lparr>title = ''Introduction to Analysis'', body = intro\<rparr>
           # comps
           @ (if ?extra then add_slide [] ''Index of Slides'' (Some points) None else [])
           @ summ @ extras
           @ [\<lparr>title = ''Conclusion of Analysis'', body = concl\<rparr>,
              \<lparr>title = ''Thank You'', body = TitleOnly\<rparr>]"
    and mc: "map title comps =
           concat (map (\<lambda>other_col.
                     [''Comparison Plot: '' @ col @ '' vs '' @ other_col,
                      ''Comparison Insights: '' @ col @ '' vs '' @ other_col,
                      ''Detailed Insights: '' @ col @ '' vs '' @ other_col]) ?others)"
    and sp: "split_into_bullets e (join_newline (numbered_titles ?planned)) 5 6 sa
           = Inr (points, sb)"
    and ms: "map title summ = (if ?fires then [''Summary of Findings''] else [])"
    and me: "map title extras =
           map (\<lambda>i. ''Additional Analysis '' @ str_nat (i + 1))
             [0..<nat (min_slides - (int (length (?planned
                  @ (if ?fires then [''Summary of Findings''] else []))) + 1))]"
    and ts: "slide_titles s = ?planned @ (if ?fires then [''Summary of Findings''] else [])
           @ map (\<lambda>i. ''Additional Analysis '' @ str_nat (i + 1))
             [0..<nat (min_slides - (int (length (?planned
                  @ (if ?fires then [''Summary of Findings''] else []))) + 1))]"
    by (rule build_presentation_run)
  have ov: "''Index of Slides'' \<notin> set (map title (overview_slides 0 (numbered_titles ?planned) []))"
    using overview_titles_not(1) by fastforce
  have cm: "''Index of Slides'' \<notin> set (map title comps)"
    unfolding mc using comparison_titles_not(1) by blast
  have sm: "''Index of Slides'' \<notin> set (map title summ)"
    unfolding ms by simp
  have ex: "''Index of Slides'' \<notin> set (map title extras)"
    unfolding me using additional_titles_not(1) by blast
  have idx: "map title (if ?extra then add_slide [] ''Index of Slides'' (Some points) None else [])
               = (if ?extra then [''Index of Slides''] else [])"
    by (simp add: add_slide_def)
  have "map title (tl (prs s)) =
          map title (overview_slides 0 (numbered_titles ?planned) [])
          @ ''Introduction to Analysis'' # map title comps
          @ (if ?extra then [''Index of Slides''] else [])
          @ map title summ @ map title extras
          @ [''Conclusion of Analysis'', ''Thank You'']"
    unfolding deck by (simp add: idx del: map_map)
  then have "''Index of Slides'' \<in> set (map title (tl (prs s))) \<longleftrightarrow> ?extra"
    using ov cm sm ex by (cases ?extra) simp_all
  with run show ?thesis
    by blast
qed

theorem index_slide_condition_witness:
  "list_all (turn_completes demo_df ''A'' ''Scatter'')
     (filter (\<lambda>c. c \<noteq> ''A'') (map fst (columns demo_df)))
   \<and> (\<exists>s. build_presentation demo_env demo_df ''A'' ''Scatter'' 5 default_prompt = Inr s
          \<and> ''Index of Slides'' \<in> set (map title (tl (prs s))))"
proof -
  have h: "list_all (turn_completes demo_df ''A'' ''Scatter'')
     (filter (\<lambda>c. c \<noteq> ''A'') (map fst (columns demo_df)))"
    by (rule demo_df_turns)
  have "2 * int (length (columns demo_df)) < 5"
    by (simp add: demo_df_def)
  then show ?thesis
    using h index_slide_condition [OF h, where e = demo_env and min_slides = 5
        and user_prompt = default_prompt]
    by blast
qed

text \<open>
  C8 as stated fails: with two columns and \<open>min_slides = 3\<close> the bound
  \<open>2 * (num_cols - 1)\<close> is exceeded, and the deck has no Index of Slides slide.
\<close>

theorem index_slide_two_columns_counterexample:
  "2 * (int (length (columns demo_df)) - 1) < 3
   \<and> map title (produced_deck
        (generate_eda_report demo_env (Inr demo_df) ''A'' ''Scatter'' 3 default_prompt)) =
       [''Sales'', ''Overview of Upcoming Slides'',
        ''Introduction to Analysis'', ''Comparison Plot: A vs B'',
        ''Comparison Insights: A vs B'', ''Detailed Insights: A vs B'',
        ''Conclusion of Analysis'', ''Thank You'']"
  by code_simp

section \<open>The summary slide and the tracked titles\<close>

text \<open>
  C9. When the prompt, in lower case, is not the default phrase and contains
  \<open>summary\<close>, and the run reaches the end of the comparison loop (every turn completes:
  the chart is drawn and the statistics are computed), the deck gets exactly one
  Summary of Findings slide after the cover, while \<open>slide_titles\<close> holds that title twice
  after the cover title. The deck is the cover, the overview slides, the slides whose
  titles are tracked, and Thank You; \<open>slide_titles\<close> has one entry more than there are
  tracked slides (the cover included), at the end of the run as at the minimum-slide
  check, since the padding adds to both alike. So \<open>len(slide_titles) + 1\<close> is one more
  than the number of tracked slides plus Thank You.
\<close>

theorem summary_title_tracked_twice:
  assumes "list_all (turn_completes df col plot_type)
             (filter (\<lambda>c. c \<noteq> col) (map fst (columns df)))"
    and "lower user_prompt \<noteq> ''default analysis of one column vs others''"
    and "str_contains ''summary'' (lower user_prompt)"
  shows "\<exists>s cover tracked.
           build_presentation e df col plot_type min_slides user_prompt = Inr s
           \<and> prs s =
               cover
               # overview_slides 0
                   (numbered_titles
                      (slide_titles
                         (plan_titles col (filter (\<lambda>c. c \<noteq> col) (map fst (columns df)))
                            (2 * int (length (columns df)) < min_slides) user_prompt
                            (cover_slide e initial_state)))) []
               @ tracked @ [\<lparr>title = ''Thank You'', body = TitleOnly\<rparr>]
           \<and> length (filter (\<lambda>sl. title sl = ''Summary of Findings'') (tl (prs s))) = 1
           \<and> length (filter (\<lambda>t. t = ''Summary of Findings'') (tl (slide_titles s))) = 2
           \<and> length (slide_titles s) = length (cover # tracked) + 1"
proof -
  let ?others = "filter (\<lambda>c. c \<noteq> col) (map fst (columns df))"
  let ?extra = "2 * int (length (columns df)) < min_slides"
  let ?fires = "lower user_prompt \<noteq> ''default analysis of one column vs others''
                  \<and> str_contains ''summary'' (lower user_prompt)"
  let ?planned = "slide_titles (plan_titles col ?others ?extra user_prompt
                                 (cover_slide e initial_state))"
  let ?SoF = "''Summary of Findings''"
  from assms(1) obtain c intro comps points sa sb summ extras concl s where
    c1: "prs (cover_slide e initial_state) = [\<lparr>title = c, body = TitleOnly\<rparr>]"
    and c2: "slide_titles (cover_slide e initial_state) = [c]"
    and run: "build_presentation e df col plot_type min_slides user_prompt = Inr s"
    and deck: "prs s =
           \<lparr>title = c, body = TitleOnly\<rparr>
           # overview_slides 0 (numbered_titles ?planned) []
           @ \<lparr>title = ''Introduction to Analysis'', body = intro\<rparr>
           # comps
           @ (if ?extra then add_slide [] ''Index of Slides'' (Some points) None else [])
           @ summ @ extras
           @ [\<lparr>title = ''Conclusion of Analysis'', body = concl\<rparr>,
              \<lparr>title = ''Thank You'', body = TitleOnly\<rparr>]"
    and mc: "map title comps =
           concat (map (\<lambda>other_col.
                     [''Comparison Plot: '' @ col @ '' vs '' @ other_col,
                      ''Comparison Insights: '' @ col @ '' vs '' @ other_col,
                      ''Detailed Insights: '' @ col @ '' vs '' @ other_col]) ?others)"
    and sp: "split_into_bullets e (join_newline (numbered_titles ?planned)) 5 6 sa
           = Inr (points, sb)"
    and ms: "map title summ = (if ?fires then [''Summary of Findings''] else [])"
    and me: "map title extras =
           map (\<lambda>i. ''Additional Analysis '' @ str_nat (i + 1))
             [0..<nat (min_slides - (int (length (?planned
                  @ (if ?fires then [''Summary of Findings''] else []))) + 1))]"
    and ts: "slide_titles s = ?planned @ (if ?fires then [''Summary of Findings''] else [])
           @ map (\<lambda>i. ''Additional Analysis '' @ str_nat (i + 1))
             [0..<nat (min_slides - (int (length (?planned
                  @ (if ?fires then [''Summary of Findings''] else []))) + 1))]"
    by (rule build_presentation_run)
  define tracked where "tracked =
           \<lparr>title = ''Introduction to Analysis'', body = intro\<rparr>
           # comps
           @ (if ?extra then add_slide [] ''Index of Slides'' (Some points) None else [])
           @ summ @ extras
           @ [\<lparr>title = ''Conclusion of Analysis'', body = concl\<rparr>]"
  define pad where "pad = map (\<lambda>i. ''Additional Analysis '' @ str_nat (i + 1))
             [0..<nat (min_slides - (int (length (?planned @ [?SoF])) + 1))]"
  have fires: ?fires
    using assms(2,3) by simp
  have ms': "map title summ = [?SoF]"
    using ms fires by simp
  have me': "map title extras = pad"
    using me fires by (simp add: pad_def)
  have ts': "slide_titles s = ?planned @ [?SoF] @ pad"
    using ts fires by (simp add: pad_def)
  have shape: "prs s = \<lparr>title = c, body = TitleOnly\<rparr>
                 # overview_slides 0 (numbered_titles ?planned) []
                 @ tracked @ [\<lparr>title = ''Thank You'', body = TitleOnly\<rparr>]"
    by (simp add: deck tracked_def)
  have f_ov: "filter (\<lambda>sl. title sl = ?SoF) (overview_slides 0 (numbered_titles ?planned) []) = []"
    using overview_titles_not(2) by (auto simp: filter_empty_conv)
  have f_cm: "filter (\<lambda>sl. title sl = ?SoF) comps = []"
  proof -
    have "title sl \<noteq> ?SoF" if "sl \<in> set comps" for sl
    proof -
      from that have "title sl \<in> set (map title comps)"
        by simp
      then show ?thesis
        unfolding mc by (rule comparison_titles_not(2))
    qed
    then show ?thesis
      by (simp add: filter_empty_conv)
  qed
  have f_ex: "filter (\<lambda>sl. title sl = ?SoF) extras = []"
  proof -
    have "title sl \<noteq> ?SoF" if "sl \<in> set extras" for sl
    proof -
      from that have "title sl \<in> set (map title extras)"
        by simp
      then show ?thesis
        unfolding me' pad_def by (rule additional_titles_not(2))
    qed
    then show ?thesis
      by (simp add: filter_empty_conv)
  qed
  have f_sm: "length (filter (\<lambda>sl. title sl = ?SoF) summ) = 1"
  proof -
    from ms' obtain x where "summ = [x]" and "title x = ?SoF"
      by (cases summ) auto
    then show ?thesis by simp
  qed
  have count_deck: "length (filter (\<lambda>sl. title sl = ?SoF) (tl (prs s))) = 1"
    unfolding deck using f_ov f_cm f_ex f_sm by (simp add: add_slide_def)
  have f_pad: "filter (\<lambda>t. t = ?SoF) pad = []"
    by (auto simp: filter_empty_conv pad_def)
  have planned: "?planned = [c] @ [''Introduction to Analysis'']
     @ map (\<lambda>other_col. ''Comparison Plot: '' @ col @ '' vs '' @ other_col) ?others
     @ map (\<lambda>other_col. ''Comparison Insights: '' @ col @ '' vs '' @ other_col) ?others
     @ map (\<lambda>other_col. ''Detailed Insights: '' @ col @ '' vs '' @ other_col) ?others
     @ (if ?extra then [''Index of Slides''] else [])
     @ [?SoF] @ [''Conclusion of Analysis'']"
    using fires by (simp add: plan_titles_run c2)
  have count_titles: "length (filter (\<lambda>t. t = ?SoF) (tl (slide_titles s))) = 2"
    unfolding ts' planned using f_pad by (simp add: filter_empty_conv)
  have lc: "length comps = 3 * length ?others"
    using arg_cong [OF mc, of length] by (simp add: length_concat_triples)
  have ls: "length summ = 1"
    using arg_cong [OF ms', of length] by simp
  have le: "length extras = length pad"
    using arg_cong [OF me', of length] by simp
  have count: "length (slide_titles s) = length (\<lparr>title = c, body = TitleOnly\<rparr> # tracked) + 1"
    unfolding ts' planned tracked_def by (simp add: lc ls le add_slide_def)
  show ?thesis
    by (intro exI conjI) (fact run, fact shape, fact count_deck, fact count_titles, fact count)
qed

theorem summary_title_tracked_twice_witness:
  "list_all (turn_completes demo_df ''A'' ''Scatter'')
     (filter (\<lambda>c. c \<noteq> ''A'') (map fst (columns demo_df)))
   \<and> lower summary_prompt \<noteq> ''default analysis of one column vs others''
   \<and> str_contains ''summary'' (lower summary_prompt)
   \<and> (\<exists>s. build_presentation demo_env demo_df ''A'' ''Scatter'' 3 summary_prompt = Inr s
          \<and> length (filter (\<lambda>sl. title sl = ''Summary of Findings'') (tl (prs s))) = 1
          \<and> length (filter (\<lambda>t. t = ''Summary of Findings'') (tl (slide_titles s))) = 2)"
proof -
  have h1: "list_all (turn_completes demo_df ''A'' ''Scatter'')
     (filter (\<lambda>c. c \<noteq> ''A'') (map fst (columns demo_df)))"
    by (rule demo_df_turns)
  have h2: "lower summary_prompt \<noteq> ''default analysis of one column vs others''"
    by code_simp
  have h3: "str_contains ''summary'' (lower summary_prompt)"
    by code_simp
  show ?thesis
    using h1 h2 h3
      summary_title_tracked_twice [OF h1 h2 h3, where e = demo_env and min_slides = 3]
    by blast
qed
section \<open>The index slide and the overview\<close>

text \<open>
  C6. The index slide is to show the numbered list that the overview slides show. The
  code builds it from that very list (line 208 repeats the expression of line 118), but
  line 209 then passes the joined list through \<open>split_into_bullets\<close>, the trimming made
  for generated text, where the overview path (lines 119 to 123) writes the list as it
  is. So the index slide does not show the list: on a frame of two columns \<open>A\<close> and \<open>B\<close>
  with \<open>min_slides = 5\<close>, the run produces nine slides, the overview lists four titles,
  and the index slide shows the five fixed failure bullets instead.
\<close>

theorem index_slide_shows_failure_bullets:
  "2 * int (length (columns demo_df)) < 5
   \<and> map title (produced_deck
        (generate_eda_report demo_env (Inr demo_df) ''A'' ''Scatter'' 5 default_prompt)) =
       [''Sales'', ''Overview of Upcoming Slides'',
        ''Introduction to Analysis'', ''Comparison Plot: A vs B'',
        ''Comparison Insights: A vs B'', ''Detailed Insights: A vs B'',
        ''Index of Slides'', ''Conclusion of Analysis'', ''Thank You'']
   \<and> bullet_points (produced_deck
        (generate_eda_report demo_env (Inr demo_df) ''A'' ''Scatter'' 5 default_prompt) ! 1) =
       [''1. Comparison Plot: A vs B'', ''2. Comparison Insights: A vs B'',
        ''3. Detailed Insights: A vs B'', ''4. Index of Slides'']
   \<and> bullet_points (produced_deck
        (generate_eda_report demo_env (Inr demo_df) ''A'' ''Scatter'' 5 default_prompt) ! 6) =
       [''Insufficient data in CSV.'', ''Analysis cannot be completed.'',
        ''Please check CSV content.'', ''No insights can be derived.'',
        ''This is an error message.'']"
  by code_simp
section \<open>What the overview slides list\<close>

text \<open>
  C7, as the code has it. In a run that reaches the end of the comparison loop (every
  turn completes: the chart is drawn and the statistics are computed), the overview
  slides come right after the cover and right before the Introduction to Analysis slide. They show
  a list of titles numbered from 1 in the order of the list, six entries to a slide:
  slide \<open>j\<close> holds the entries from \<open>6 * j\<close> on, the first slide is titled Overview of
  Upcoming Slides and the later ones Overview of Upcoming Slides Continued. Apart from
  Introduction to Analysis and Conclusion of Analysis, about which nothing is said
  here, the titles listed are the Comparison Plot titles of all other columns in
  dataset order, then their Comparison Insights titles, then their Detailed Insights
  titles, then Index of Slides when \<open>min_slides > 2 * num_cols\<close>, then Summary of
  Findings when the summary directive fires; no Additional Analysis title, nor the
  cover or Thank You, is listed.
\<close>

theorem overview_slides_listing:
  assumes "list_all (turn_completes df col plot_type)
             (filter (\<lambda>c. c \<noteq> col) (map fst (columns df)))"
  shows "\<exists>s cover listed overview_content rest.
           build_presentation e df col plot_type min_slides user_prompt = Inr s
           \<and> overview_content = map (\<lambda>(i, t). str_nat (i + 1) @ ''. '' @ t) (enumerate 0 listed)
           \<and> prs s = cover # overview_slides 0 overview_content [] @ rest
           \<and> title (hd rest) = ''Introduction to Analysis''
           \<and> filter (\<lambda>t. t \<noteq> ''Introduction to Analysis'' \<and> t \<noteq> ''Conclusion of Analysis'')
                 listed =
               map (\<lambda>other_col. ''Comparison Plot: '' @ col @ '' vs '' @ other_col)
                 (filter (\<lambda>c. c \<noteq> col) (map fst (columns df)))
               @ map (\<lambda>other_col. ''Comparison Insights: '' @ col @ '' vs '' @ other_col)
                   (filter (\<lambda>c. c \<noteq> col) (map fst (columns df)))
               @ map (\<lambda>other_col. ''Detailed Insights: '' @ col @ '' vs '' @ other_col)
                   (filter (\<lambda>c. c \<noteq> col) (map fst (columns df)))
               @ (if 2 * int (length (columns df)) < min_slides then [''Index of Slides''] else [])
               @ (if lower user_prompt \<noteq> ''default analysis of one column vs others''
                     \<and> str_contains ''summary'' (lower user_prompt)
                  then [''Summary of Findings''] else [])
           \<and> length (overview_slides 0 overview_content []) = (length overview_content + 5) div 6
           \<and> (\<forall>j < length (overview_slides 0 overview_content []).
                 overview_slides 0 overview_content [] ! j =
                   \<lparr>title = (if j = 0 then ''Overview of Upcoming Slides''
                             else ''Overview of Upcoming Slides Continued''),
                    body = BulletList (take 6 (drop (6 * j) overview_content))\<rparr>)
           \<and> concat (map bullet_points (overview_slides 0 overview_content [])) = overview_content"
proof -
  let ?others = "filter (\<lambda>c. c \<noteq> col) (map fst (columns df))"
  let ?extra = "2 * int (length (columns df)) < min_slides"
  let ?fires = "lower user_prompt \<noteq> ''default analysis of one column vs others''
                  \<and> str_contains ''summary'' (lower user_prompt)"
  let ?planned = "slide_titles (plan_titles col ?others ?extra user_prompt
                                 (cover_slide e initial_state))"
  from assms(1) obtain c intro comps points sa sb summ extras concl s where
    c1: "prs (cover_slide e initial_state) = [\<lparr>title = c, body = TitleOnly\<rparr>]"
    and c2: "slide_titles (cover_slide e initial_state) = [c]"
    and run: "build_presentation e df col plot_type min_slides user_prompt = Inr s"
    and deck: "prs s =
           \<lparr>title = c, body = TitleOnly\<rparr>
           # overview_slides 0 (numbered_titles ?planned) []
           @ \<lparr>title = ''Introduction to Analysis'', body = intro\<rparr>
           # comps
           @ (if ?extra then add_slide [] ''Index of Slides'' (Some points) None else [])
           @ summ @ extras
           @ [\<lparr>title = ''Conclusion of Analysis'', body = concl\<rparr>,
              \<lparr>title = ''Thank You'', body = TitleOnly\<rparr>]"
    and mc: "map title comps =
           concat (map (\<lambda>other_col.
                     [''Comparison Plot: '' @ col @ '' vs '' @ other_col,
                      ''Comparison Insights: '' @ col @ '' vs '' @ other_col,
                      ''Detailed Insights: '' @ col @ '' vs '' @ other_col]) ?others)"
    and sp: "split_into_bullets e (join_newline (numbered_titles ?planned)) 5 6 sa
           = Inr (points, sb)"
    and ms: "map title summ = (if ?fires then [''Summary of Findings''] else [])"
    and me: "map title extras =
           map (\<lambda>i. ''Additional Analysis '' @ str_nat (i + 1))
             [0..<nat (min_slides - (int (length (?planned
                  @ (if ?fires then [''Summary of Findings''] else []))) + 1))]"
    and ts: "slide_titles s = ?planned @ (if ?fires then [''Summary of Findings''] else [])
           @ map (\<lambda>i. ''Additional Analysis '' @ str_nat (i + 1))
             [0..<nat (min_slides - (int (length (?planned
                  @ (if ?fires then [''Summary of Findings''] else []))) + 1))]"
    by (rule build_presentation_run)
  define listed where "listed = butlast (drop 2 ?planned)"
  define overview_content where "overview_content = numbered_titles ?planned"
  define rest where "rest =
           \<lparr>title = ''Introduction to Analysis'', body = intro\<rparr>
           # comps
           @ (if ?extra then add_slide [] ''Index of Slides'' (Some points) None else [])
           @ summ @ extras
           @ [\<lparr>title = ''Conclusion of Analysis'', body = concl\<rparr>,
              \<lparr>title = ''Thank You'', body = TitleOnly\<rparr>]"
  have numbered: "overview_content =
                    map (\<lambda>(i, t). str_nat (i + 1) @ ''. '' @ t) (enumerate 0 listed)"
    by (simp add: overview_content_def numbered_titles_def listed_def)
  have shape: "prs s = \<lparr>title = c, body = TitleOnly\<rparr>
                 # overview_slides 0 overview_content [] @ rest"
    by (simp add: deck overview_content_def rest_def)
  have next_slide: "title (hd rest) = ''Introduction to Analysis''"
    by (simp add: rest_def)
  have listed_eq: "listed =
               map (\<lambda>other_col. ''Comparison Plot: '' @ col @ '' vs '' @ other_col) ?others
               @ map (\<lambda>other_col. ''Comparison Insights: '' @ col @ '' vs '' @ other_col) ?others
               @ map (\<lambda>other_col. ''Detailed Insights: '' @ col @ '' vs '' @ other_col) ?others
               @ (if ?extra then [''Index of Slides''] else [])
               @ (if ?fires then [''Summary of Findings''] else [])"
    unfolding listed_def plan_titles_run c2
    by (simp add: butlast_append)
  have kept: "filter (\<lambda>t. t \<noteq> ''Introduction to Analysis'' \<and> t \<noteq> ''Conclusion of Analysis'')
                 listed =
               map (\<lambda>other_col. ''Comparison Plot: '' @ col @ '' vs '' @ other_col) ?others
               @ map (\<lambda>other_col. ''Comparison Insights: '' @ col @ '' vs '' @ other_col) ?others
               @ map (\<lambda>other_col. ''Detailed Insights: '' @ col @ '' vs '' @ other_col) ?others
               @ (if ?extra then [''Index of Slides''] else [])
               @ (if ?fires then [''Summary of Findings''] else [])"
    unfolding listed_eq by (simp add: filter_map comp_def)
  have pages: "length (overview_slides 0 overview_content []) = (length overview_content + 5) div 6"
    by (simp add: overview_slides_length)
  have page: "\<forall>j < length (overview_slides 0 overview_content []).
                 overview_slides 0 overview_content [] ! j =
                   \<lparr>title = (if j = 0 then ''Overview of Upcoming Slides''
                             else ''Overview of Upcoming Slides Continued''),
                    body = BulletList (take 6 (drop (6 * j) overview_content))\<rparr>"
    using overview_pages by blast
  have listing: "concat (map bullet_points (overview_slides 0 overview_content [])) =
                   overview_content"
    by (simp add: overview_slides_bullets)
  show ?thesis
    by (intro exI conjI)
       (fact run, fact numbered, fact shape, fact next_slide, fact kept, fact pages, fact page,
        fact listing)
qed

theorem overview_slides_listing_witness:
  "list_all (turn_completes demo_df ''A'' ''Scatter'')
     (filter (\<lambda>c. c \<noteq> ''A'') (map fst (columns demo_df)))
   \<and> (\<exists>s cover overview_content rest.
         build_presentation demo_env demo_df ''A'' ''Scatter'' 3 default_prompt = Inr s
         \<and> prs s = cover # overview_slides 0 overview_content [] @ rest
         \<and> title (hd rest) = ''Introduction to Analysis''
         \<and> concat (map bullet_points (overview_slides 0 overview_content [])) = overview_content)"
proof -
  have h: "list_all (turn_completes demo_df ''A'' ''Scatter'')
     (filter (\<lambda>c. c \<noteq> ''A'') (map fst (columns demo_df)))"
    by (rule demo_df_turns)
  from overview_slides_listing [OF h, where e = demo_env
      and min_slides = 3 and user_prompt = default_prompt]
  obtain s cover overview_content rest where
    "build_presentation demo_env demo_df ''A'' ''Scatter'' 3 default_prompt = Inr s"
    and "prs s = cover # overview_slides 0 overview_content [] @ rest"
    and "title (hd rest) = ''Introduction to Analysis''"
    and "concat (map bullet_points (overview_slides 0 overview_content [])) = overview_content"
    by blast
  with h show ?thesis
    by blast
qed

text \<open>
  C7 as stated fails: with the other columns \<open>B\<close> and \<open>C\<close> and \<open>min_slides = 12\<close>, the
  overview is followed by the introduction, it lists the two Comparison Plot titles
  first while the deck has the three slides of \<open>B\<close> before those of \<open>C\<close>, and it does
  not list the slide Additional Analysis 1 of the deck.
\<close>

theorem overview_order_and_padding_counterexample:
  "map title (produced_deck
     (generate_eda_report demo_env (Inr demo_df3) ''A'' ''Scatter'' 12 default_prompt)) =
     [''Sales'',
      ''Overview of Upcoming Slides'', ''Overview of Upcoming Slides Continued'',
      ''Introduction to Analysis'',
      ''Comparison Plot: A vs B'', ''Comparison Insights: A vs B'', ''Detailed Insights: A vs B'',
      ''Comparison Plot: A vs C'', ''Comparison Insights: A vs C'', ''Detailed Insights: A vs C'',
      ''Index of Slides'', ''Additional Analysis 1'', ''Conclusion of Analysis'', ''Thank You'']
   \<and> map bullet_points (take 2 (tl (produced_deck
         (generate_eda_report demo_env (Inr demo_df3) ''A'' ''Scatter'' 12 default_prompt)))) =
     [ [''1. Comparison Plot: A vs B'', ''2. Comparison Plot: A vs C'',
       ''3. Comparison Insights: A vs B'', ''4. Comparison Insights: A vs C'',
       ''5. Detailed Insights: A vs B'', ''6. Detailed Insights: A vs C''],
      [''7. Index of Slides'']]"
proof -
  let ?others = "filter (\<lambda>c. c \<noteq> ''A'') (map fst (columns demo_df3))"
  let ?extra = "2 * int (length (columns demo_df3)) < 12"
  let ?fires = "lower default_prompt \<noteq> ''default analysis of one column vs others''
                  \<and> str_contains ''summary'' (lower default_prompt)"
  let ?planned = "slide_titles (plan_titles ''A'' ?others ?extra default_prompt
                                 (cover_slide demo_env initial_state))"
  have turns: "list_all (turn_completes demo_df3 ''A'' ''Scatter'')
                 (filter (\<lambda>c. c \<noteq> ''A'') (map fst (columns demo_df3)))"
    by (rule demo_df3_turns)
  from turns obtain c intro comps points sa sb summ extras concl s where
    c1: "prs (cover_slide demo_env initial_state) = [\<lparr>title = c, body = TitleOnly\<rparr>]"
    and c2: "slide_titles (cover_slide demo_env initial_state) = [c]"
    and run: "build_presentation demo_env demo_df3 ''A'' ''Scatter'' 12 default_prompt = Inr s"
    and deck: "prs s =
           \<lparr>title = c, body = TitleOnly\<rparr>
           # overview_slides 0 (numbered_titles ?planned) []
           @ \<lparr>title = ''Introduction to Analysis'', body = intro\<rparr>
           # comps
           @ (if ?extra then add_slide [] ''Index of Slides'' (Some points) None else [])
           @ summ @ extras
           @ [\<lparr>title = ''Conclusion of Analysis'', body = concl\<rparr>,
              \<lparr>title = ''Thank You'', body = TitleOnly\<rparr>]"
    and mc: "map title comps =
           concat (map (\<lambda>other_col.
                     [''Comparison Plot: '' @ ''A'' @ '' vs '' @ other_col,
                      ''Comparison Insights: '' @ ''A'' @ '' vs '' @ other_col,
                      ''Detailed Insights: '' @ ''A'' @ '' vs '' @ other_col]) ?others)"
    and sp: "split_into_bullets demo_env (join_newline (numbered_titles ?planned)) 5 6 sa
           = Inr (points, sb)"
    and ms: "map title summ = (if ?fires then [''Summary of Findings''] else [])"
    and me: "map title extras =
           map (\<lambda>i. ''Additional Analysis '' @ str_nat (i + 1))
             [0..<nat (12 - (int (length (?planned
                  @ (if ?fires then [''Summary of Findings''] else []))) + 1))]"
    and ts: "slide_titles s = ?planned @ (if ?fires then [''Summary of Findings''] else [])
           @ map (\<lambda>i. ''Additional Analysis '' @ str_nat (i + 1))
             [0..<nat (12 - (int (length (?planned
                  @ (if ?fires then [''Summary of Findings''] else []))) + 1))]"
    by (rule build_presentation_run)
  have cover: "cover_slide demo_env initial_state =
                 \<lparr>prs = [\<lparr>title = ''Sales'', body = TitleOnly\<rparr>], slide_titles = [''Sales''],
                  llm_calls = 1, rand_calls = 0\<rparr>"
    by code_simp
  have c: "c = ''Sales''"
    using c2 by (simp add: cover)
  have others: "?others = [''B'', ''C'']"
    by (simp add: demo_df3_def)
  have extra: "?extra"
    by (simp add: demo_df3_def)
  have fires: "\<not> ?fires"
    by code_simp
  have planned: "?planned =
     [''Sales'', ''Introduction to Analysis'',
      ''Comparison Plot: A vs B'', ''Comparison Plot: A vs C'',
      ''Comparison Insights: A vs B'', ''Comparison Insights: A vs C'',
      ''Detailed Insights: A vs B'', ''Detailed Insights: A vs C'',
      ''Index of Slides'', ''Conclusion of Analysis'']"
    unfolding plan_titles_run others cover using extra fires by simp
  have numbered: "numbered_titles ?planned =
     [''1. Comparison Plot: A vs B'', ''2. Comparison Plot: A vs C'',
      ''3. Comparison Insights: A vs B'', ''4. Comparison Insights: A vs C'',
      ''5. Detailed Insights: A vs B'', ''6. Detailed Insights: A vs C'',
      ''7. Index of Slides'']"
    unfolding planned by code_simp
  have ov: "overview_slides 0 (numbered_titles ?planned) [] =
     [\<lparr>title = ''Overview of Upcoming Slides'',
       body = BulletList
         [''1. Comparison Plot: A vs B'', ''2. Comparison Plot: A vs C'',
          ''3. Comparison Insights: A vs B'', ''4. Comparison Insights: A vs C'',
          ''5. Detailed Insights: A vs B'', ''6. Detailed Insights: A vs C'']\<rparr>,
      \<lparr>title = ''Overview of Upcoming Slides Continued'',
       body = BulletList [''7. Index of Slides'']\<rparr>]"
    unfolding numbered by code_simp
  have one: "str_nat (Suc 0) = ''1''"
    by code_simp
  have pad: "map title extras = [''Additional Analysis 1'']"
    unfolding me planned using fires by (simp add: one)
  have deck_titles: "map title (prs s) =
     [''Sales'',
      ''Overview of Upcoming Slides'', ''Overview of Upcoming Slides Continued'',
      ''Introduction to Analysis'',
      ''Comparison Plot: A vs B'', ''Comparison Insights: A vs B'', ''Detailed Insights: A vs B'',
      ''Comparison Plot: A vs C'', ''Comparison Insights: A vs C'', ''Detailed Insights: A vs C'',
      ''Index of Slides'', ''Additional Analysis 1'', ''Conclusion of Analysis'', ''Thank You'']"
    unfolding deck ov using extra fires by (simp add: c mc others ms pad add_slide_def)
  have deck_overview: "map bullet_points (take 2 (tl (prs s))) =
     [ [''1. Comparison Plot: A vs B'', ''2. Comparison Plot: A vs C'',
       ''3. Comparison Insights: A vs B'', ''4. Comparison Insights: A vs C'',
       ''5. Detailed Insights: A vs B'', ''6. Detailed Insights: A vs C''],
      [''7. Index of Slides'']]"
    unfolding deck ov by (simp add: bullet_points_def)
  have ne: "\<not> df_empty demo_df3"
    by (simp add: df_empty_def demo_df3_def)
  have conv: "libreoffice demo_env = None"
    by (simp add: demo_env_def)
  have "produced_deck
          (generate_eda_report demo_env (Inr demo_df3) ''A'' ''Scatter'' 12 default_prompt) = prs s"
    by (simp add: generate_eda_report_def ne run conv produced_deck_def)
  then show ?thesis
    by (simp only: deck_titles deck_overview)
qed

end
